theory Spec2Isabelle
  imports Main
begin

section \<open>JavaScript values\<close>

text \<open>
  A JavaScript string is a sequence of UTF-16 code units; \<open>slice\<close>, \<open>length\<close> and
  \<open>trim\<close> count code units, so a string is modelled as the list of its code units.
  ASCII literals are written through \<open>js\<close>; the Chinese literals of the source are
  given by their code units.
\<close>

type_synonym jsstring = "nat list"

definition js :: "string \<Rightarrow> jsstring" where
  "js s = map of_char s"

text \<open>Decimal rendering of a non-negative integer, as a template literal prints it.\<close>

fun show_nat :: "nat \<Rightarrow> jsstring" where
  "show_nat n = (if n < 10 then [48 + n] else show_nat (n div 10) @ [48 + n mod 10])"

declare show_nat.simps [simp del]

text \<open>
  \<open>String.prototype.trim\<close> removes the ECMAScript WhiteSpace and LineTerminator code
  points from both ends.
\<close>

definition is_white_space :: "nat \<Rightarrow> bool" where
  "is_white_space c \<longleftrightarrow>
     c \<in> set [0x9, 0xA, 0xB, 0xC, 0xD, 0x20, 0xA0, 0x1680, 0x2028, 0x2029, 0x202F, 0x205F,
              0x3000, 0xFEFF]
     \<or> (0x2000 \<le> c \<and> c \<le> 0x200A)"

definition trim :: "jsstring \<Rightarrow> jsstring" where
  "trim s = rev (dropWhile is_white_space (rev (dropWhile is_white_space s)))"

text \<open>
  A parsed JSON value. \<open>None\<close> of type \<open>json option\<close> stands for \<open>undefined\<close>.
  An object is the list of its own properties in enumeration order (keys are unique in a
  parsed object). Numbers are restricted to integers.
\<close>

datatype json =
    JNull
  | JBool bool
  | JNum int
  | JStr jsstring
  | JArr "json list"
  | JObj "(jsstring \<times> json) list"

text \<open>Truthiness of a value, as \<open>if (v)\<close> and \<open>!v\<close> test it.\<close>

fun truthy :: "json option \<Rightarrow> bool" where
  "truthy None = False"
| "truthy (Some JNull) = False"
| "truthy (Some (JBool b)) = b"
| "truthy (Some (JNum n)) = (n \<noteq> 0)"
| "truthy (Some (JStr s)) = (s \<noteq> [])"
| "truthy (Some (JArr xs)) = True"
| "truthy (Some (JObj kvs)) = True"

text \<open>
  \<open>get_prop v k\<close> reads the named property \<open>v.k\<close> of a value that is neither \<open>null\<close> nor
  \<open>undefined\<close>, for the property names the source reads this way (\<open>data\<close>, \<open>taskId\<close>,
  \<open>code\<close>, \<open>successFlag\<close>, \<open>response\<close>, \<open>resultUrls\<close>, \<open>errorMessage\<close>): only objects
  carry them. \<open>opt_prop\<close> is the optional chaining of a property read, \<open>nullish\<close> the
  nullish coalescing operator.
\<close>

fun get_prop :: "json \<Rightarrow> jsstring \<Rightarrow> json option" where
  "get_prop (JObj kvs) k = map_of kvs k"
| "get_prop _ k = None"

definition opt_prop :: "json option \<Rightarrow> jsstring \<Rightarrow> json option" where
  "opt_prop v k = (case v of None \<Rightarrow> None | Some JNull \<Rightarrow> None | Some j \<Rightarrow> get_prop j k)"

definition nullish :: "json option \<Rightarrow> json \<Rightarrow> json" where
  "nullish v d = (case v of None \<Rightarrow> d | Some JNull \<Rightarrow> d | Some j \<Rightarrow> j)"

text \<open>The \<open>.length\<close> property and the element \<open>[0]\<close> of a value that is not nullish.\<close>

fun js_length :: "json \<Rightarrow> json option" where
  "js_length (JArr xs) = Some (JNum (int (length xs)))"
| "js_length (JStr s) = Some (JNum (int (length s)))"
| "js_length (JObj kvs) = map_of kvs (js ''length'')"
| "js_length _ = None"

fun js_index0 :: "json \<Rightarrow> json option" where
  "js_index0 (JArr xs) = (case xs of [] \<Rightarrow> None | x # _ \<Rightarrow> Some x)"
| "js_index0 (JStr s) = (case s of [] \<Rightarrow> None | c # _ \<Rightarrow> Some (JStr [c]))"
| "js_index0 (JObj kvs) = map_of kvs (js ''0'')"
| "js_index0 _ = None"

section \<open>Data model\<close>

text \<open>
  Modelled from the spec: the declarations of \<open>VideoTask\<close> and \<open>AppData\<close> (module
  \<open>./types\<close>) are not among the sources. The fields are those of section 3 of the
  specification and those the orchestrator reads and writes. \<open>remoteUrl\<close> holds the
  first element of the provider's \<open>resultUrls\<close> as it was received.
\<close>

record VideoTask =
  number :: jsstring
  prompt :: jsstring
  imageUrls :: "jsstring list option"
  aspectRatio :: "jsstring option"
  watermark :: "jsstring option"
  callbackUrl :: "jsstring option"
  seeds :: "jsstring option"
  enableFallback :: "bool option"
  enableTranslation :: "bool option"
  status :: jsstring
  progress :: int
  errorMsg :: jsstring
  localPath :: "jsstring option"
  remoteUrl :: "json option"
  actualFilename :: "jsstring option"
  updatedAt :: jsstring

text \<open>
  \<open>Partial<VideoTask>\<close>: every field may be absent (\<open>None\<close>) or present with a value.
\<close>

record VideoTaskPatch =
  p_number :: "jsstring option"
  p_prompt :: "jsstring option"
  p_imageUrls :: "jsstring list option option"
  p_aspectRatio :: "jsstring option option"
  p_watermark :: "jsstring option option"
  p_callbackUrl :: "jsstring option option"
  p_seeds :: "jsstring option option"
  p_enableFallback :: "bool option option"
  p_enableTranslation :: "bool option option"
  p_status :: "jsstring option"
  p_progress :: "int option"
  p_errorMsg :: "jsstring option"
  p_localPath :: "jsstring option option"
  p_remoteUrl :: "json option option"
  p_actualFilename :: "jsstring option option"
  p_updatedAt :: "jsstring option"

definition no_patch :: VideoTaskPatch where
  "no_patch = \<lparr> p_number = None, p_prompt = None, p_imageUrls = None, p_aspectRatio = None,
     p_watermark = None, p_callbackUrl = None, p_seeds = None, p_enableFallback = None,
     p_enableTranslation = None, p_status = None, p_progress = None, p_errorMsg = None,
     p_localPath = None, p_remoteUrl = None, p_actualFilename = None, p_updatedAt = None \<rparr>"

record ApiSettings =
  threadCount :: "int option"

record VideoSettings =
  vs_apiKey :: "jsstring option"
  savePath :: jsstring

record KeyItem =
  name :: jsstring
  platform :: "jsstring option"
  apiKey :: jsstring

text \<open>
  \<open>keyLibrary\<close> is an object keyed by name; it is kept as the list of its entries in the
  order \<open>Object.values\<close> enumerates them. Every other part of the document lives in the
  extension field of the record.
\<close>

record AppData =
  apiSettings :: ApiSettings
  videoSettings :: VideoSettings
  keyLibrary :: "(jsstring \<times> KeyItem) list"
  videoTasks :: "VideoTask list"

section \<open>Task record store\<close>

text \<open>
  Modelled from the spec: \<open>readAppData\<close> and \<open>updateAppData\<close> (module \<open>./data-store\<close>) are
  not among the sources. The specification describes them as the read and the
  read-modify-write of the stored document: \<open>updateAppData\<close> reads the document, applies
  the mutator and writes back what the mutator returns.
\<close>

definition readAppData :: "'a AppData_scheme \<Rightarrow> 'a AppData_scheme" where
  "readAppData store = store"

definition updateAppData ::
  "('a AppData_scheme \<Rightarrow> 'a AppData_scheme) \<Rightarrow> 'a AppData_scheme \<Rightarrow> 'a AppData_scheme" where
  "updateAppData mutator store = mutator (readAppData store)"

text \<open>
  \<open>Object.assign(task, patch, { updatedAt })\<close>: the fields present in the patch overwrite
  those of the task, then \<open>updatedAt\<close> is overwritten by the stamp.
\<close>

definition assign_field :: "'a \<Rightarrow> 'a option \<Rightarrow> 'a" where
  "assign_field old new = (case new of None \<Rightarrow> old | Some v \<Rightarrow> v)"

definition Object_assign :: "VideoTask \<Rightarrow> VideoTaskPatch \<Rightarrow> jsstring \<Rightarrow> VideoTask" where
  "Object_assign task patch stamp =
     \<lparr> number = assign_field (number task) (p_number patch),
       prompt = assign_field (prompt task) (p_prompt patch),
       imageUrls = assign_field (imageUrls task) (p_imageUrls patch),
       aspectRatio = assign_field (aspectRatio task) (p_aspectRatio patch),
       watermark = assign_field (watermark task) (p_watermark patch),
       callbackUrl = assign_field (callbackUrl task) (p_callbackUrl patch),
       seeds = assign_field (seeds task) (p_seeds patch),
       enableFallback = assign_field (enableFallback task) (p_enableFallback patch),
       enableTranslation = assign_field (enableTranslation task) (p_enableTranslation patch),
       status = assign_field (status task) (p_status patch),
       progress = assign_field (progress task) (p_progress patch),
       errorMsg = assign_field (errorMsg task) (p_errorMsg patch),
       localPath = assign_field (localPath task) (p_localPath patch),
       remoteUrl = assign_field (remoteUrl task) (p_remoteUrl patch),
       actualFilename = assign_field (actualFilename task) (p_actualFilename patch),
       updatedAt = stamp \<rparr>"

text \<open>
  \<open>data.videoTasks.find((item) => item.number === number)\<close> followed by the in-place
  assignment to the task found: the first task carrying the number is replaced by its
  updated version; with no match the list is returned as it is.
\<close>

fun find_and_assign ::
  "jsstring \<Rightarrow> (VideoTask \<Rightarrow> VideoTask) \<Rightarrow> VideoTask list \<Rightarrow> VideoTask list" where
  "find_and_assign n f [] = []"
| "find_and_assign n f (item # items) =
     (if number item = n then f item # items else item # find_and_assign n f items)"

text \<open>
  \<open>updateVideoTask\<close>; \<open>now\<close> is the value of \<open>new Date().toISOString()\<close> at the call.
\<close>

definition updateVideoTask ::
  "jsstring \<Rightarrow> jsstring \<Rightarrow> VideoTaskPatch \<Rightarrow> 'a AppData_scheme \<Rightarrow> 'a AppData_scheme" where
  "updateVideoTask now n patch =
     updateAppData (\<lambda>data.
       data\<lparr>videoTasks := find_and_assign n (\<lambda>task. Object_assign task patch now) (videoTasks data)\<rparr>)"

section \<open>Runtime and effects\<close>

text \<open>
  An exception value: the name of its class and its message. \<open>new_Error m\<close> is
  \<open>new Error(m)\<close>.
\<close>

datatype js_error = JsError (err_name: jsstring) (err_message: jsstring)

definition new_Error :: "jsstring \<Rightarrow> js_error" where
  "new_Error m = JsError (js ''Error'') m"

text \<open>
  Functions of the JavaScript and Node runtime that the source calls and that are not
  part of the repository. They are parameters of the model: every theorem holds for all
  of them. \<open>ToString\<close> is the conversion of a value to a string, \<open>URL_pathname\<close> the
  \<open>pathname\<close> of \<open>new URL(url)\<close> or the error this constructor throws.
\<close>

record runtime =
  JSON_stringify :: "json \<Rightarrow> jsstring"
  ToString :: "json option \<Rightarrow> jsstring"
  toLowerCase :: "jsstring \<Rightarrow> jsstring"
  encodeURIComponent :: "json \<Rightarrow> jsstring"
  URL_pathname :: "json option \<Rightarrow> js_error + jsstring"
  path_basename :: "jsstring \<Rightarrow> jsstring"
  path_join :: "jsstring list \<Rightarrow> jsstring"
  path_posix_join :: "jsstring list \<Rightarrow> jsstring"
  path_relative :: "jsstring \<Rightarrow> jsstring \<Rightarrow> jsstring"
  path_isAbsolute :: "jsstring \<Rightarrow> bool"
  process_cwd :: jsstring

datatype http_response = HttpResponse (resp_status: nat) (resp_data: json)

datatype axios_error =
  AxiosError (ax_code: "jsstring option") (ax_response: "http_response option")
    (ax_message: jsstring)

text \<open>What a \<open>catch\<close> clause receives; \<open>axios.isAxiosError\<close> holds of the first form.\<close>

datatype thrown = Axios axios_error | Plain js_error

fun isAxiosError :: "thrown \<Rightarrow> bool" where
  "isAxiosError (Axios e) = True"
| "isAxiosError (Plain e) = False"

text \<open>
  The effects of a pipeline, in the order they happen: a call of \<open>updateVideoTask\<close>
  (number, patch), one HTTP request through axios (URL, method, \<open>Authorization\<close> header),
  a timed wait in milliseconds, and the effects of the downloader. Request bodies are not
  recorded: the answers of the network are given for every request, whatever it carries.
\<close>

datatype event =
    Write jsstring VideoTaskPatch
  | Http jsstring jsstring jsstring
  | Sleep nat
  | Mkdir jsstring
  | Fetch "json option"
  | WriteFile jsstring

text \<open>
  A function that performs effects returns its result together with the effects it
  performed; \<open>after evs r\<close> puts the effects \<open>evs\<close> before those of \<open>r\<close>.
\<close>

definition after :: "event list \<Rightarrow> 'r \<times> event list \<Rightarrow> 'r \<times> event list" where
  "after evs r = (fst r, evs @ snd r)"

section \<open>HTTP call layer with retry\<close>

text \<open>
  What the network does with one request: it answers with a status and a body, or the
  request fails inside axios with an \<open>AxiosError\<close>, or something else is thrown.
\<close>

datatype net_outcome = Responds http_response | Fails axios_error | Throws js_error

text \<open>
  One call of axios with a \<open>validateStatus\<close> option: a response whose status is not
  validated is rejected with an \<open>AxiosError\<close> that carries the response.
\<close>

definition axios :: "(nat \<Rightarrow> bool) \<Rightarrow> net_outcome \<Rightarrow> thrown + http_response" where
  "axios validateStatus out =
     (case out of
        Responds r \<Rightarrow>
          if validateStatus (resp_status r) then Inr r
          else Inl (Axios (AxiosError (Some (js ''ERR_BAD_RESPONSE'')) (Some r)
                 (js ''Request failed with status code '' @ show_nat (resp_status r))))
      | Fails e \<Rightarrow> Inl (Axios e)
      | Throws e \<Rightarrow> Inl (Plain e))"

text \<open>
  \<open>typeof data === 'string' ? data : JSON.stringify(data)\<close>
\<close>

definition body_text :: "'a runtime_scheme \<Rightarrow> json \<Rightarrow> jsstring" where
  "body_text rt d = (case d of JStr s \<Rightarrow> s | _ \<Rightarrow> JSON_stringify rt d)"

definition http_error_message :: "'a runtime_scheme \<Rightarrow> http_response \<Rightarrow> jsstring" where
  "http_error_message rt r =
     js ''HTTP '' @ show_nat (resp_status r) @ js '': '' @ body_text rt (resp_data r)"

text \<open>The \<open>try\<close> block of \<open>fetchJson\<close> for one attempt.\<close>

definition fetchJson_try :: "'a runtime_scheme \<Rightarrow> net_outcome \<Rightarrow> thrown + json" where
  "fetchJson_try rt out =
     (case axios (\<lambda>status. status < 500) out of
        Inl error \<Rightarrow> Inl error
      | Inr response \<Rightarrow>
          if resp_status response \<ge> 400
          then Inl (Plain (new_Error (http_error_message rt response)))
          else Inr (resp_data response))"

definition REQUEST_TIMEOUT_MSG :: "nat \<Rightarrow> jsstring" where
  "REQUEST_TIMEOUT_MSG timeoutMs =
     [0x8BF7, 0x6C42, 0x8D85, 0x65F6, 0x20, 0x28] @ show_nat timeoutMs @ js ''ms)''"

definition CONNECTION_RESET_MSG :: "nat \<Rightarrow> jsstring" where
  "CONNECTION_RESET_MSG retries =
     [0x8FDE, 0x63A5, 0x88AB, 0x670D, 0x52A1, 0x5668, 0x91CD, 0x7F6E, 0xFF0C, 0x5DF2, 0x91CD,
      0x8BD5] @ show_nat retries @
     [0x6B21, 0x3002, 0x53EF, 0x80FD, 0x539F, 0x56E0, 0xFF1A, 0x56FE, 0x7247, 0x55, 0x52, 0x4C,
      0x57DF, 0x540D, 0x88AB, 0x963B, 0x6B62, 0xFF08, 0x5EFA, 0x8BAE, 0x4F7F, 0x7528, 0x70,
      0x6F, 0x73, 0x74, 0x69, 0x6D, 0x67, 0x2E, 0x63, 0x63, 0x7B49, 0x56FE, 0x5E8A, 0xFF09]"

definition NETWORK_FAILED_MSG :: "jsstring option \<Rightarrow> jsstring \<Rightarrow> jsstring" where
  "NETWORK_FAILED_MSG code msg =
     [0x7F51, 0x7EDC, 0x8BF7, 0x6C42, 0x5931, 0x8D25, 0x20, 0x28] @
     (case code of None \<Rightarrow> js ''unknown'' | Some c \<Rightarrow> if c = [] then js ''unknown'' else c) @
     js ''): '' @ msg"

definition REQUEST_FAILED_MSG :: jsstring where
  "REQUEST_FAILED_MSG = [0x8BF7, 0x6C42, 0x5931, 0x8D25]"

text \<open>
  The \<open>catch\<close> clause of \<open>fetchJson\<close> for one attempt: it throws (\<open>Inl\<close>), or waits the
  given number of milliseconds and continues with the next attempt (\<open>Inr\<close>). The first
  case is the branch taken when \<open>axios.isAxiosError(error)\<close> holds.
\<close>

definition fetchJson_catch ::
  "'a runtime_scheme \<Rightarrow> nat \<Rightarrow> nat \<Rightarrow> nat \<Rightarrow> thrown \<Rightarrow> thrown + nat" where
  "fetchJson_catch rt timeoutMs retries attempt error =
     (case error of
        Axios e \<Rightarrow>
          if ax_code e = Some (js ''ECONNABORTED'')
          then Inl (Plain (new_Error (REQUEST_TIMEOUT_MSG timeoutMs)))
          else if ax_code e = Some (js ''ECONNRESET'')
          then (if attempt < retries then Inr (attempt * 2000)
                else Inl (Plain (new_Error (CONNECTION_RESET_MSG retries))))
          else if (case ax_response e of None \<Rightarrow> False | Some r \<Rightarrow> resp_status r \<ge> 500)
                  \<and> attempt < retries
          then Inr (attempt * 1000)
          else (case ax_response e of
                  Some r \<Rightarrow> Inl (Plain (new_Error (http_error_message rt r)))
                | None \<Rightarrow>
                    Inl (Plain (new_Error (NETWORK_FAILED_MSG (ax_code e) (ax_message e)))))
      | Plain e \<Rightarrow>
          if attempt < retries then Inr (attempt * 1000) else Inl (Plain e))"

text \<open>
  The \<open>for\<close> loop of \<open>fetchJson\<close> from a given attempt on. \<open>net k\<close> is what the network
  does with the request of attempt \<open>k\<close>; \<open>lastError\<close> is the variable of that name.
\<close>

function fetchJson_loop ::
  "'a runtime_scheme \<Rightarrow> (nat \<Rightarrow> net_outcome) \<Rightarrow> jsstring \<Rightarrow> jsstring \<times> jsstring \<Rightarrow> nat \<Rightarrow> nat
     \<Rightarrow> nat \<Rightarrow> thrown option \<Rightarrow> (thrown + json) \<times> event list" where
  "fetchJson_loop rt net url config timeoutMs retries attempt lastError =
     (if attempt \<le> retries then
        (case fetchJson_try rt (net attempt) of
           Inr d \<Rightarrow> (Inr d, [Http url (fst config) (snd config)])
         | Inl error \<Rightarrow>
             (case fetchJson_catch rt timeoutMs retries attempt error of
                Inl e \<Rightarrow> (Inl e, [Http url (fst config) (snd config)])
              | Inr ms \<Rightarrow>
                  after [Http url (fst config) (snd config), Sleep ms]
                    (fetchJson_loop rt net url config timeoutMs retries (attempt + 1)
                       (Some error))))
      else
        (Inl (case lastError of Some e \<Rightarrow> e | None \<Rightarrow> Plain (new_Error REQUEST_FAILED_MSG)), []))"
  by pat_completeness auto
termination
  by (relation "measure (\<lambda>(rt, net, url, config, timeoutMs, retries, attempt, lastError).
        Suc retries - attempt)") auto

declare fetchJson_loop.simps [simp del]

text \<open>
  \<open>fetchJson\<close>; the configuration of a request is its method and its \<open>Authorization\<close>
  header.
\<close>

definition fetchJson ::
  "'a runtime_scheme \<Rightarrow> (nat \<Rightarrow> net_outcome) \<Rightarrow> jsstring \<Rightarrow> jsstring \<times> jsstring \<Rightarrow> nat \<Rightarrow> nat
     \<Rightarrow> (thrown + json) \<times> event list" where
  "fetchJson rt net url config timeoutMs retries =
     fetchJson_loop rt net url config timeoutMs retries 1 None"

section \<open>Literals of the orchestrator\<close>

definition GENERATE_URL :: jsstring where
  "GENERATE_URL = js ''https://api.kie.ai/api/v1/veo/generate''"

definition RECORD_URL :: jsstring where
  "RECORD_URL = js ''https://api.kie.ai/api/v1/veo/record-info''"

text \<open>The status labels: waiting, failed, succeeded, generating, submitted, downloading.\<close>

definition STATUS_WAITING :: jsstring where
  "STATUS_WAITING = [0x7B49, 0x5F85, 0x4E2D]"

definition STATUS_FAILED :: jsstring where
  "STATUS_FAILED = [0x5931, 0x8D25]"

definition STATUS_SUCCESS :: jsstring where
  "STATUS_SUCCESS = [0x6210, 0x529F]"

definition STATUS_GENERATING :: jsstring where
  "STATUS_GENERATING = [0x751F, 0x6210, 0x4E2D]"

definition STATUS_SUBMITTED :: jsstring where
  "STATUS_SUBMITTED =
     [0x4EFB, 0x52A1, 0x5DF2, 0x63D0, 0x4EA4, 0xFF0C, 0x7B49, 0x5F85, 0x5904, 0x7406, 0x2E, 0x2E,
      0x2E]"

definition STATUS_DOWNLOADING :: jsstring where
  "STATUS_DOWNLOADING =
     [0x751F, 0x6210, 0x5B8C, 0x6210, 0xFF0C, 0x5F00, 0x59CB, 0x4E0B, 0x8F7D, 0x2E, 0x2E, 0x2E]"

text \<open>The attempt-numbered label of a poll that is still generating.\<close>

definition STATUS_POLLING :: "nat \<Rightarrow> jsstring" where
  "STATUS_POLLING pollCount =
     [0x751F, 0x6210, 0x4E2D, 0x2E, 0x2E, 0x2E, 0x20, 0x28, 0x8F6E, 0x8BE2, 0x20] @
     show_nat pollCount @ js '')''"

text \<open>The messages: no task to generate, no key configured, polling timed out, no result
  link, no task id in the answer (a prefix), download failed (a prefix).\<close>

definition NO_TASKS_MSG :: jsstring where
  "NO_TASKS_MSG =
     [0x6CA1, 0x6709, 0x9700, 0x8981, 0x751F, 0x6210, 0x7684, 0x89C6, 0x9891, 0x4EFB, 0x52A1]"

definition NO_KEY_MSG :: jsstring where
  "NO_KEY_MSG =
     [0x672A, 0x914D, 0x7F6E, 0x20, 0x4B, 0x49, 0x45, 0x2E, 0x41, 0x49, 0x20, 0x7684, 0x20, 0x41,
      0x50, 0x49, 0x20, 0x5BC6, 0x94A5]"

definition POLL_TIMEOUT_MSG :: jsstring where
  "POLL_TIMEOUT_MSG =
     [0x8F6E, 0x8BE2, 0x8D85, 0x65F6, 0xFF0C, 0x672A, 0x5728, 0x9884, 0x671F, 0x65F6, 0x95F4,
      0x5185, 0x5B8C, 0x6210, 0x89C6, 0x9891, 0x751F, 0x6210]"

definition NO_RESULT_URL_MSG :: jsstring where
  "NO_RESULT_URL_MSG =
     [0x67E5, 0x8BE2, 0x63A5, 0x53E3, 0x672A, 0x8FD4, 0x56DE, 0x89C6, 0x9891, 0x94FE, 0x63A5]"

definition NO_TASK_ID_MSG :: jsstring where
  "NO_TASK_ID_MSG =
     [0x751F, 0x6210, 0x63A5, 0x53E3, 0x672A, 0x8FD4, 0x56DE, 0x20, 0x74, 0x61, 0x73, 0x6B, 0x49,
      0x64, 0x3002, 0x54CD, 0x5E94, 0x7ED3, 0x6784, 0x3A, 0x20]"

definition DOWNLOAD_FAILED_MSG :: jsstring where
  "DOWNLOAD_FAILED_MSG = [0x4E0B, 0x8F7D, 0x89C6, 0x9891, 0x5931, 0x8D25, 0x3A, 0x20]"

definition maxPollTimes :: nat where
  "maxPollTimes = 120"

definition pollInterval :: nat where
  "pollInterval = 5000"

section \<open>Downloader\<close>

text \<open>
  What the world does during one pipeline: the answers of the network to the submit
  request (by attempt) and to the poll requests (by poll count and attempt), and the
  outcomes of the effects of the downloader. \<open>Date_now k\<close> is the value of the call
  number \<open>k\<close> of \<open>Date.now()\<close> inside the downloader.
\<close>

datatype fetch_result = FetchResponse nat | FetchThrows js_error

record pipeline_env =
  submit_net :: "nat \<Rightarrow> net_outcome"
  poll_net :: "nat \<Rightarrow> nat \<Rightarrow> net_outcome"
  mkdir_fails :: "js_error option"
  Date_now :: "nat \<Rightarrow> nat"
  fetch_outcome :: fetch_result
  arrayBuffer_fails :: "js_error option"
  writeFile_fails :: "js_error option"

definition endsWith :: "jsstring \<Rightarrow> jsstring \<Rightarrow> bool" where
  "endsWith s suffix \<longleftrightarrow>
     length suffix \<le> length s \<and> drop (length s - length suffix) s = suffix"

text \<open>\<open>response.ok\<close> of the Fetch API: the status is in the range 200 to 299.\<close>

definition response_ok :: "nat \<Rightarrow> bool" where
  "response_ok st \<longleftrightarrow> 200 \<le> st \<and> st \<le> 299"

definition downloadVideo ::
  "'a runtime_scheme \<Rightarrow> 'b pipeline_env_scheme \<Rightarrow> json option \<Rightarrow> jsstring \<Rightarrow> jsstring
     \<Rightarrow> (thrown + jsstring \<times> jsstring) \<times> event list" where
  "downloadVideo rt env url n saveDir =
     (case mkdir_fails env of
        Some e \<Rightarrow> (Inl (Plain e), [Mkdir saveDir])
      | None \<Rightarrow>
     (case URL_pathname rt url of
        Inl e \<Rightarrow> (Inl (Plain e), [Mkdir saveDir])
      | Inr pathname \<Rightarrow>
     (let k1 = (if pathname \<noteq> [] then 0 else 1);
          arg = (if pathname \<noteq> [] then pathname
                 else n @ js ''-'' @ show_nat (Date_now env 0));
          b = path_basename rt arg;
          k2 = (if b \<noteq> [] then k1 else k1 + 1);
          baseName = (if b \<noteq> [] then b
                      else n @ js ''-'' @ show_nat (Date_now env k1) @ js ''.mp4'');
          ext = (if endsWith (toLowerCase rt baseName) (js ''.mp4'') then [] else js ''.mp4'');
          timestamp = Date_now env k2;
          filename = n @ js ''_'' @ show_nat timestamp @ js ''_'' @ baseName @ ext;
          finalPath = path_join rt [saveDir, filename]
      in (case fetch_outcome env of
            FetchThrows e \<Rightarrow> (Inl (Plain e), [Mkdir saveDir, Fetch url])
          | FetchResponse st \<Rightarrow>
              if \<not> response_ok st
              then (Inl (Plain (new_Error (DOWNLOAD_FAILED_MSG @ show_nat st))),
                    [Mkdir saveDir, Fetch url])
              else
             (case arrayBuffer_fails env of
                Some e \<Rightarrow> (Inl (Plain e), [Mkdir saveDir, Fetch url])
              | None \<Rightarrow>
             (case writeFile_fails env of
                Some e \<Rightarrow> (Inl (Plain e), [Mkdir saveDir, Fetch url, WriteFile finalPath])
              | None \<Rightarrow>
                  (let relative =
                         path_relative rt (path_join rt [process_cwd rt, js ''public'']) finalPath
                   in (Inr (path_posix_join rt [relative], filename),
                       [Mkdir saveDir, Fetch url, WriteFile finalPath]))))))))"

section \<open>Task pipeline\<close>

text \<open>How one round of the poll loop ends: with \<open>continue\<close> or the end of the body, with
  \<open>return\<close>, or with a \<open>throw\<close>.\<close>

datatype control = Continue | Return | Throw thrown

text \<open>The message of \<open>new Error(v)\<close>: the value converted to a string.\<close>

definition message_of :: "'a runtime_scheme \<Rightarrow> json option \<Rightarrow> jsstring" where
  "message_of rt v = (case v of Some (JStr s) \<Rightarrow> s | _ \<Rightarrow> ToString rt v)"

text \<open>
  The body of the \<open>while\<close> loop of \<open>processVideoTask\<close>; \<open>pollCount\<close> is the counter
  after its increment.
\<close>

definition poll_body ::
  "'a runtime_scheme \<Rightarrow> 'b pipeline_env_scheme \<Rightarrow> VideoTask \<Rightarrow> jsstring \<Rightarrow> jsstring \<Rightarrow> jsstring
     \<Rightarrow> nat \<Rightarrow> control \<times> event list" where
  "poll_body rt env task key saveDir pollUrl pollCount =
     after [Sleep pollInterval]
     (case fetchJson rt (poll_net env pollCount) pollUrl (js ''GET'', js ''Bearer '' @ key)
             900000 3 of
        (Inl error, evs) \<Rightarrow> (Throw error, evs)
      | (Inr pollData, evs) \<Rightarrow>
          if opt_prop (Some pollData) (js ''code'') \<noteq> Some (JNum 200) then
            (Continue,
             evs @ [Write (number task) (no_patch\<lparr>p_status := Some (STATUS_POLLING pollCount)\<rparr>)])
          else
            (let payloadData = nullish (get_prop pollData (js ''data'')) (JObj []) in
             if get_prop payloadData (js ''successFlag'') = Some (JNum 1) then
               after (evs @ [Write (number task)
                        (no_patch\<lparr>p_status := Some STATUS_DOWNLOADING, p_progress := Some 95\<rparr>)])
                 (let resultUrls =
                        nullish (opt_prop (get_prop payloadData (js ''response''))
                                   (js ''resultUrls'')) (JArr []) in
                  if \<not> truthy (js_length resultUrls)
                  then (Throw (Plain (new_Error NO_RESULT_URL_MSG)), [])
                  else
                    (case downloadVideo rt env (js_index0 resultUrls) (number task) saveDir of
                       (Inl error, dl) \<Rightarrow> (Throw error, dl)
                     | (Inr (localPath', actualFilename'), dl) \<Rightarrow>
                         (Return,
                          dl @ [Write (number task)
                                  (no_patch\<lparr>p_status := Some STATUS_SUCCESS,
                                     p_progress := Some 100,
                                     p_localPath := Some (Some localPath'),
                                     p_remoteUrl := Some (js_index0 resultUrls),
                                     p_actualFilename := Some (Some actualFilename'),
                                     p_errorMsg := Some []\<rparr>)])))
             else if truthy (get_prop payloadData (js ''errorMessage'')) then
               (Throw (Plain (new_Error
                  (message_of rt (get_prop payloadData (js ''errorMessage''))))), evs)
             else
               (Continue,
                evs @ [Write (number task)
                         (no_patch\<lparr>p_status := Some (STATUS_POLLING pollCount),
                            p_progress := Some (min 90 (15 + int pollCount * 2))\<rparr>)])))"

text \<open>
  The \<open>while\<close> loop from a given value of \<open>pollCount\<close> on, with the \<open>throw\<close> that
  follows it.
\<close>

function poll_loop ::
  "'a runtime_scheme \<Rightarrow> 'b pipeline_env_scheme \<Rightarrow> VideoTask \<Rightarrow> jsstring \<Rightarrow> jsstring \<Rightarrow> jsstring
     \<Rightarrow> nat \<Rightarrow> (thrown + unit) \<times> event list" where
  "poll_loop rt env task key saveDir pollUrl pollCount =
     (if pollCount < maxPollTimes then
        (case poll_body rt env task key saveDir pollUrl (pollCount + 1) of
           (Continue, evs) \<Rightarrow>
             after evs (poll_loop rt env task key saveDir pollUrl (pollCount + 1))
         | (Return, evs) \<Rightarrow> (Inr (), evs)
         | (Throw error, evs) \<Rightarrow> (Inl error, evs))
      else (Inl (Plain (new_Error POLL_TIMEOUT_MSG)), []))"
  by pat_completeness auto
termination
  by (relation "measure (\<lambda>(rt, env, task, key, saveDir, pollUrl, pollCount).
        maxPollTimes - pollCount)") auto

declare poll_loop.simps [simp del]

text \<open>The constant \<open>pollUrl\<close> of \<open>processVideoTask\<close>, for a job identifier.\<close>

definition pollUrl :: "'a runtime_scheme \<Rightarrow> json \<Rightarrow> jsstring" where
  "pollUrl rt taskId = RECORD_URL @ js ''?taskId='' @ encodeURIComponent rt taskId"

text \<open>The \<open>try\<close> block of \<open>processVideoTask\<close>.\<close>

definition processVideoTask_try ::
  "'a runtime_scheme \<Rightarrow> 'b pipeline_env_scheme \<Rightarrow> VideoTask \<Rightarrow> jsstring \<Rightarrow> jsstring
     \<Rightarrow> (thrown + unit) \<times> event list" where
  "processVideoTask_try rt env task key saveDir =
     (case fetchJson rt (submit_net env) GENERATE_URL (js ''POST'', js ''Bearer '' @ key)
             900000 3 of
        (Inl error, evs) \<Rightarrow> (Inl error, evs)
      | (Inr generateResponse, evs) \<Rightarrow>
          (let taskId = opt_prop (opt_prop (Some generateResponse) (js ''data'')) (js ''taskId'') in
           case (if truthy taskId then taskId else None) of
             None \<Rightarrow>
               (Inl (Plain (new_Error
                  (NO_TASK_ID_MSG @ take 500 (JSON_stringify rt generateResponse)))), evs)
           | Some tid \<Rightarrow>
               after (evs @ [Write (number task)
                        (no_patch\<lparr>p_status := Some STATUS_SUBMITTED, p_progress := Some 15\<rparr>)])
                 (poll_loop rt env task key saveDir (pollUrl rt tid) 0)))"

text \<open>
  \<open>(error as Error).message || String(error)\<close>: the message, or for an empty message
  the string form of the error.
\<close>

fun thrown_name :: "thrown \<Rightarrow> jsstring" where
  "thrown_name (Axios e) = js ''AxiosError''"
| "thrown_name (Plain e) = err_name e"

fun thrown_message :: "thrown \<Rightarrow> jsstring" where
  "thrown_message (Axios e) = ax_message e"
| "thrown_message (Plain e) = err_message e"

definition String_of_error :: "thrown \<Rightarrow> jsstring" where
  "String_of_error error =
     (if thrown_name error = [] then thrown_message error
      else if thrown_message error = [] then thrown_name error
      else thrown_name error @ js '': '' @ thrown_message error)"

definition errorMessage_of :: "thrown \<Rightarrow> jsstring" where
  "errorMessage_of error =
     (if thrown_message error \<noteq> [] then thrown_message error else String_of_error error)"

text \<open>
  \<open>processVideoTask\<close>: the first status update, the \<open>try\<close> block, and the \<open>catch\<close> clause
  that turns whatever the block throws into the failure update. The result says how the
  call itself ends.
\<close>

definition processVideoTask ::
  "'a runtime_scheme \<Rightarrow> 'b pipeline_env_scheme \<Rightarrow> VideoTask \<Rightarrow> jsstring \<Rightarrow> jsstring
     \<Rightarrow> (thrown + unit) \<times> event list" where
  "processVideoTask rt env task key saveDir =
     after [Write (number task)
              (no_patch\<lparr>p_status := Some STATUS_GENERATING, p_errorMsg := Some [],
                 p_progress := Some 5\<rparr>)]
       (case processVideoTask_try rt env task key saveDir of
          (Inr u, evs) \<Rightarrow> (Inr (), evs)
        | (Inl error, evs) \<Rightarrow>
            (Inr (),
             evs @ [Write (number task)
                      (no_patch\<lparr>p_status := Some STATUS_FAILED,
                         p_errorMsg := Some (errorMessage_of error)\<rparr>)]))"

section \<open>Credential resolution and the batch entry point\<close>

definition KIE_PLATFORMS :: "jsstring list" where
  "KIE_PLATFORMS = [js ''kie.ai'', js ''kie'', js ''kei'', js ''kieai'']"

text \<open>The predicate given to \<open>find\<close> in \<open>pickVideoApiKey\<close>.\<close>

definition is_kie_item :: "'a runtime_scheme \<Rightarrow> KeyItem \<Rightarrow> bool" where
  "is_kie_item rt item =
     (let normalized = (case platform item of None \<Rightarrow> [] | Some p \<Rightarrow> toLowerCase rt p)
      in normalized \<in> set KIE_PLATFORMS)"

text \<open>
  \<open>pickVideoApiKey\<close>; \<open>envKey\<close> is \<open>process.env.KIE_API_KEY\<close>. The result is the pair of
  the key and its source, or the error thrown.
\<close>

definition pickVideoApiKey ::
  "'a runtime_scheme \<Rightarrow> jsstring option \<Rightarrow> 'c AppData_scheme \<Rightarrow> js_error + jsstring \<times> jsstring" where
  "pickVideoApiKey rt envKey data =
     (case (case envKey of None \<Rightarrow> None | Some k \<Rightarrow> if trim k \<noteq> [] then Some (trim k) else None) of
        Some k \<Rightarrow> Inr (k, js ''environment'')
      | None \<Rightarrow>
     (case (case vs_apiKey (videoSettings data) of
              None \<Rightarrow> None
            | Some k \<Rightarrow> if trim k \<noteq> [] then Some (trim k) else None) of
        Some k \<Rightarrow> Inr (k, js ''videoSettings'')
      | None \<Rightarrow>
     (case find (is_kie_item rt) (map snd (keyLibrary data)) of
        Some candidate \<Rightarrow> Inr (apiKey candidate, name candidate)
      | None \<Rightarrow> Inl (new_Error NO_KEY_MSG))))"

definition resolveSaveDir :: "'a runtime_scheme \<Rightarrow> jsstring \<Rightarrow> jsstring" where
  "resolveSaveDir rt dir =
     (if dir = [] then path_join rt [process_cwd rt, js ''public'', js ''generated_videos'']
      else if path_isAbsolute rt dir then dir
      else path_join rt [process_cwd rt, dir])"

text \<open>
  The constant \<open>targets\<close> of \<open>generateVideos\<close>; \<open>numbers\<close> is \<open>None\<close> when the payload
  has no such field.
\<close>

definition targets :: "jsstring list option \<Rightarrow> VideoTask list \<Rightarrow> VideoTask list" where
  "targets numbers tasks =
     (let filtered =
            (case numbers of
               None \<Rightarrow> tasks
             | Some ns \<Rightarrow>
                 if length ns \<noteq> 0 then filter (\<lambda>item. number item \<in> set ns) tasks
                 else tasks)
      in filter (\<lambda>item. status item \<in> set [STATUS_WAITING, STATUS_FAILED]) filtered)"

text \<open>
  What the world does during one call of \<open>generateVideos\<close>: the environment variable and,
  for the target at each position of \<open>targets\<close>, what happens during its pipeline.
\<close>

record process_env =
  KIE_API_KEY :: "jsstring option"
  pipeline :: "nat \<Rightarrow> pipeline_env"

record batch_result =
  success :: bool
  message :: "jsstring option"

text \<open>
  The outcome of a call of \<open>generateVideos\<close>: the value returned or the error thrown, the
  argument given to \<open>pLimit\<close> when the call gets there, and for every pipeline started
  the effects it performs, in the order of \<open>targets\<close>. A pipeline takes its decisions from
  the answers of the network only, so its own effects do not depend on how the limiter
  interleaves the pipelines; the interleaving itself is not part of the model.
\<close>

record batch =
  outcome :: "thrown + batch_result"
  concurrency :: "int option"
  pipelines :: "event list list"

definition generateVideos ::
  "'a runtime_scheme \<Rightarrow> 'b process_env_scheme \<Rightarrow> jsstring list option \<Rightarrow> 'c AppData_scheme \<Rightarrow> batch" where
  "generateVideos rt penv numbers store =
     (let data = readAppData store;
          ts = targets numbers (videoTasks data)
      in if length ts = 0
         then \<lparr> outcome = Inr \<lparr> success = False, message = Some NO_TASKS_MSG \<rparr>,
                concurrency = None, pipelines = [] \<rparr>
         else
           (case pickVideoApiKey rt (KIE_API_KEY penv) data of
              Inl e \<Rightarrow> \<lparr> outcome = Inl (Plain e), concurrency = None, pipelines = [] \<rparr>
            | Inr (key, source) \<Rightarrow>
                (let saveDir = resolveSaveDir rt (savePath (videoSettings data));
                     limit = max 1 (case threadCount (apiSettings data) of
                                      None \<Rightarrow> 1 | Some c \<Rightarrow> c);
                     runs = map (\<lambda>(i, task). processVideoTask rt (pipeline penv i) task key saveDir)
                              (enumerate 0 ts)
                 in \<lparr> outcome =
                        (case find isl (map fst runs) of
                           Some (Inl error) \<Rightarrow> Inl error
                         | _ \<Rightarrow> Inr \<lparr> success = True, message = None \<rparr>),
                      concurrency = Some limit,
                      pipelines = map snd runs \<rparr>)))"

section \<open>Effects on the store\<close>

text \<open>
  The store after the effects of a pipeline: every \<open>Write\<close> is the call of
  \<open>updateVideoTask\<close> it records, stamped with the time of the clock at its position; the
  other effects leave the store alone.
\<close>

fun perform :: "jsstring \<Rightarrow> event \<Rightarrow> 'c AppData_scheme \<Rightarrow> 'c AppData_scheme" where
  "perform now (Write n patch) store = updateVideoTask now n patch store"
| "perform now ev store = store"

fun persist ::
  "(nat \<Rightarrow> jsstring) \<Rightarrow> nat \<Rightarrow> event list \<Rightarrow> 'c AppData_scheme \<Rightarrow> 'c AppData_scheme" where
  "persist clock k [] store = store"
| "persist clock k (ev # evs) store = persist clock (Suc k) evs (perform (clock k) ev store)"

text \<open>The record a task identity denotes: the first one that carries the number.\<close>

definition find_task :: "jsstring \<Rightarrow> 'c AppData_scheme \<Rightarrow> VideoTask option" where
  "find_task n store = find (\<lambda>item. number item = n) (videoTasks store)"

section \<open>Notions used by the properties\<close>

text \<open>The calls of \<open>updateVideoTask\<close> among a sequence of effects, in order.\<close>

fun writes :: "event list \<Rightarrow> (jsstring \<times> VideoTaskPatch) list" where
  "writes [] = []"
| "writes (Write n patch # evs) = (n, patch) # writes evs"
| "writes (ev # evs) = writes evs"

text \<open>The progress values that a sequence of effects writes, in order.\<close>

fun written_progress :: "event list \<Rightarrow> int list" where
  "written_progress [] = []"
| "written_progress (Write n patch # evs) =
     (case p_progress patch of
        Some v \<Rightarrow> v # written_progress evs
      | None \<Rightarrow> written_progress evs)"
| "written_progress (ev # evs) = written_progress evs"

text \<open>A request to the record-lookup endpoint, that is, a poll request.\<close>

fun is_poll_request :: "event \<Rightarrow> bool" where
  "is_poll_request (Http url method auth) = (take (length RECORD_URL) url = RECORD_URL)"
| "is_poll_request ev = False"

text \<open>
  What the submit call of a pipeline returns or throws, the job identifier of an answer,
  and what the poll call number \<open>k\<close> returns or throws.
\<close>

definition submit_answer ::
  "'a runtime_scheme \<Rightarrow> 'b pipeline_env_scheme \<Rightarrow> jsstring \<Rightarrow> thrown + json" where
  "submit_answer rt env key =
     fst (fetchJson rt (submit_net env) GENERATE_URL (js ''POST'', js ''Bearer '' @ key) 900000 3)"

definition taskId_of :: "json \<Rightarrow> json option" where
  "taskId_of generateResponse =
     opt_prop (opt_prop (Some generateResponse) (js ''data'')) (js ''taskId'')"

definition poll_answer ::
  "'a runtime_scheme \<Rightarrow> 'b pipeline_env_scheme \<Rightarrow> jsstring \<Rightarrow> jsstring \<Rightarrow> nat \<Rightarrow> thrown + json" where
  "poll_answer rt env key url k =
     fst (fetchJson rt (poll_net env k) url (js ''GET'', js ''Bearer '' @ key) 900000 3)"

text \<open>
  A poll answer that reports neither success nor a provider error: its \<open>code\<close> is not
  200, or its \<open>successFlag\<close> is not 1 and its \<open>errorMessage\<close> is absent or falsy.
\<close>

definition payload_of :: "json \<Rightarrow> json" where
  "payload_of pollData = nullish (get_prop pollData (js ''data'')) (JObj [])"

definition still_generating :: "json \<Rightarrow> bool" where
  "still_generating pollData \<longleftrightarrow>
     opt_prop (Some pollData) (js ''code'') \<noteq> Some (JNum 200)
     \<or> (get_prop (payload_of pollData) (js ''successFlag'') \<noteq> Some (JNum 1)
        \<and> \<not> truthy (get_prop (payload_of pollData) (js ''errorMessage'')))"

text \<open>
  A poll answer that reports success: its \<open>code\<close> is 200 and its \<open>successFlag\<close> is 1.
  \<open>resultUrls_of\<close> is the list of result links it carries.
\<close>

definition reports_success :: "json \<Rightarrow> bool" where
  "reports_success pollData \<longleftrightarrow>
     opt_prop (Some pollData) (js ''code'') = Some (JNum 200)
     \<and> get_prop (payload_of pollData) (js ''successFlag'') = Some (JNum 1)"

definition resultUrls_of :: "json \<Rightarrow> json" where
  "resultUrls_of pollData =
     nullish (opt_prop (get_prop (payload_of pollData) (js ''response'')) (js ''resultUrls''))
       (JArr [])"

text \<open>A credential source that is absent or blank after trimming.\<close>

definition blank :: "jsstring option \<Rightarrow> bool" where
  "blank k \<longleftrightarrow> (case k of None \<Rightarrow> True | Some s \<Rightarrow> trim s = [])"

text \<open>
  In the words of the specification: the updated record receives exactly the fields of
  the patch and the new stamp, and keeps every other field.
\<close>

definition receives_patch :: "VideoTask \<Rightarrow> VideoTaskPatch \<Rightarrow> jsstring \<Rightarrow> VideoTask \<Rightarrow> bool" where
  "receives_patch task patch stamp task' \<longleftrightarrow>
     number task' = (case p_number patch of Some v \<Rightarrow> v | None \<Rightarrow> number task) \<and>
     prompt task' = (case p_prompt patch of Some v \<Rightarrow> v | None \<Rightarrow> prompt task) \<and>
     imageUrls task' = (case p_imageUrls patch of Some v \<Rightarrow> v | None \<Rightarrow> imageUrls task) \<and>
     aspectRatio task' = (case p_aspectRatio patch of Some v \<Rightarrow> v | None \<Rightarrow> aspectRatio task) \<and>
     watermark task' = (case p_watermark patch of Some v \<Rightarrow> v | None \<Rightarrow> watermark task) \<and>
     callbackUrl task' = (case p_callbackUrl patch of Some v \<Rightarrow> v | None \<Rightarrow> callbackUrl task) \<and>
     seeds task' = (case p_seeds patch of Some v \<Rightarrow> v | None \<Rightarrow> seeds task) \<and>
     enableFallback task' =
       (case p_enableFallback patch of Some v \<Rightarrow> v | None \<Rightarrow> enableFallback task) \<and>
     enableTranslation task' =
       (case p_enableTranslation patch of Some v \<Rightarrow> v | None \<Rightarrow> enableTranslation task) \<and>
     status task' = (case p_status patch of Some v \<Rightarrow> v | None \<Rightarrow> status task) \<and>
     progress task' = (case p_progress patch of Some v \<Rightarrow> v | None \<Rightarrow> progress task) \<and>
     errorMsg task' = (case p_errorMsg patch of Some v \<Rightarrow> v | None \<Rightarrow> errorMsg task) \<and>
     localPath task' = (case p_localPath patch of Some v \<Rightarrow> v | None \<Rightarrow> localPath task) \<and>
     remoteUrl task' = (case p_remoteUrl patch of Some v \<Rightarrow> v | None \<Rightarrow> remoteUrl task) \<and>
     actualFilename task' =
       (case p_actualFilename patch of Some v \<Rightarrow> v | None \<Rightarrow> actualFilename task) \<and>
     updatedAt task' = stamp"

text \<open>
  What every call of \<open>updateVideoTask\<close> made by the pipeline of a task satisfies: it is
  addressed to the number of the task, its patch leaves the number alone, and a patch
  that sets the failure label carries no progress value.
\<close>

definition ok_write :: "VideoTask \<Rightarrow> jsstring \<times> VideoTaskPatch \<Rightarrow> bool" where
  "ok_write task w \<longleftrightarrow>
     fst w = number task \<and> p_number (snd w) = None \<and>
     (p_status (snd w) = Some STATUS_FAILED \<longrightarrow> p_progress (snd w) = None)"

section \<open>Concrete inputs\<close>

text \<open>A runtime, a store and answers of the network on which the properties are exercised.\<close>

definition example_runtime :: runtime where
  "example_runtime =
     \<lparr> JSON_stringify = (\<lambda>v. js ''{}''),
       ToString = (\<lambda>v. js ''value''),
       toLowerCase = map (\<lambda>c. if 65 \<le> c \<and> c \<le> 90 then c + 32 else c),
       encodeURIComponent = (\<lambda>v. case v of JStr t \<Rightarrow> t | _ \<Rightarrow> js ''x''),
       URL_pathname = (\<lambda>u. Inr (js ''/v.mp4'')),
       path_basename = (\<lambda>p. js ''v.mp4''),
       path_join = (\<lambda>ps. concat (map (\<lambda>p. 47 # p) ps)),
       path_posix_join = concat,
       path_relative = (\<lambda>a b. drop 1 b),
       path_isAbsolute = (\<lambda>p. take 1 p = [47]),
       process_cwd = js ''app'' \<rparr>"

definition example_task :: "jsstring \<Rightarrow> jsstring \<Rightarrow> VideoTask" where
  "example_task n st =
     \<lparr> number = n, prompt = js ''a cat'', imageUrls = None, aspectRatio = None,
       watermark = None, callbackUrl = None, seeds = None, enableFallback = None,
       enableTranslation = None, status = st, progress = 0, errorMsg = js ''old'',
       localPath = None, remoteUrl = None, actualFilename = None,
       updatedAt = js ''2025-01-01'' \<rparr>"

definition example_store :: AppData where
  "example_store =
     \<lparr> apiSettings = \<lparr> threadCount = Some 2 \<rparr>,
       videoSettings = \<lparr> vs_apiKey = Some (js ''  ''), savePath = [] \<rparr>,
       keyLibrary =
         [(js ''img'', \<lparr> name = js ''img'', platform = Some (js ''apicore''), apiKey = js ''k1'' \<rparr>),
          (js ''video'', \<lparr> name = js ''video'', platform = Some (js ''KIE.ai''), apiKey = js ''k2'' \<rparr>),
          (js ''spare'', \<lparr> name = js ''spare'', platform = Some (js ''kie''), apiKey = js ''k3'' \<rparr>)],
       videoTasks =
         [example_task (js ''1'') STATUS_SUCCESS,
          example_task (js ''2'') STATUS_WAITING,
          example_task (js ''2'') STATUS_FAILED,
          example_task (js ''3'') STATUS_GENERATING] \<rparr>"

definition submit_ok :: json where
  "submit_ok = JObj [(js ''code'', JNum 200), (js ''data'', JObj [(js ''taskId'', JStr (js ''t1''))])]"

definition submit_without_id :: json where
  "submit_without_id = JObj [(js ''code'', JNum 401), (js ''msg'', JStr (js ''no access''))]"

definition poll_pending :: json where
  "poll_pending = JObj [(js ''code'', JNum 200), (js ''data'', JObj [(js ''successFlag'', JNum 0)])]"

definition poll_done :: json where
  "poll_done =
     JObj [(js ''code'', JNum 200),
           (js ''data'', JObj [(js ''successFlag'', JNum 1),
              (js ''response'', JObj [(js ''resultUrls'', JArr [JStr (js ''https://cdn/v.mp4'')])])])]"

definition example_env :: "json \<Rightarrow> (nat \<Rightarrow> json) \<Rightarrow> pipeline_env" where
  "example_env submit poll =
     \<lparr> submit_net = (\<lambda>attempt. Responds (HttpResponse 200 submit)),
       poll_net = (\<lambda>k attempt. Responds (HttpResponse 200 (poll k))),
       mkdir_fails = None,
       Date_now = (\<lambda>k. 1700000000000 + k),
       fetch_outcome = FetchResponse 200,
       arrayBuffer_fails = None,
       writeFile_fails = None \<rparr>"

definition example_process_env :: process_env where
  "example_process_env =
     \<lparr> KIE_API_KEY = None, pipeline = (\<lambda>i. example_env submit_ok (\<lambda>k. poll_done)) \<rparr>"

text \<open>A network that answers 404 to the first attempt and 200 to the later ones.\<close>

definition not_found_once :: "nat \<Rightarrow> net_outcome" where
  "not_found_once attempt =
     (if attempt = 1 then Responds (HttpResponse 404 (JStr (js ''Not Found'')))
      else Responds (HttpResponse 200 (JObj [])))"

section \<open>Auxiliary facts\<close>

subsection \<open>Sequences of effects\<close>

lemma writes_append: "writes (xs @ ys) = writes xs @ writes ys"
  by (induction xs rule: writes.induct) auto

lemma written_progress_append:
  "written_progress (xs @ ys) = written_progress xs @ written_progress ys"
  by (induction xs rule: written_progress.induct) (auto split: option.splits)

lemma after_simps: "fst (after evs r) = fst r" "snd (after evs r) = evs @ snd r"
  by (simp_all add: after_def)

subsection \<open>The store\<close>

lemma find_and_assign_length: "length (find_and_assign n f ts) = length ts"
  by (induction ts) auto

lemma find_and_assign_no_match:
  "\<forall>t \<in> set ts. number t \<noteq> n \<Longrightarrow> find_and_assign n f ts = ts"
  by (induction ts) auto

lemma find_and_assign_first:
  "i < length ts \<Longrightarrow> number (ts ! i) = n \<Longrightarrow> \<forall>j<i. number (ts ! j) \<noteq> n \<Longrightarrow>
   find_and_assign n f ts = ts[i := f (ts ! i)]"
proof (induction ts arbitrary: i)
  case Nil
  then show ?case by simp
next
  case (Cons t ts)
  show ?case
  proof (cases i)
    case 0
    with Cons.prems show ?thesis by simp
  next
    case (Suc k)
    with Cons.prems have "number t \<noteq> n" by auto
    moreover have "find_and_assign n f ts = ts[k := f (ts ! k)]"
      using Cons.prems Suc by (intro Cons.IH) auto
    ultimately show ?thesis using Suc by simp
  qed
qed

lemma updateVideoTask_eq:
  "updateVideoTask now n patch store =
     store\<lparr>videoTasks := find_and_assign n (\<lambda>task. Object_assign task patch now) (videoTasks store)\<rparr>"
  by (simp add: updateVideoTask_def updateAppData_def readAppData_def)

lemma Object_assign_receives_patch: "receives_patch task patch now (Object_assign task patch now)"
  by (simp add: receives_patch_def Object_assign_def assign_field_def split: option.splits)

lemma persist_append:
  "persist clock k (xs @ ys) store = persist clock (k + length xs) ys (persist clock k xs store)"
  by (induction xs arbitrary: k store) auto

lemma find_and_assign_numbers:
  "\<forall>t. number (f t) = number t \<Longrightarrow> map number (find_and_assign n f ts) = map number ts"
  by (induction ts) auto

lemma find_and_assign_find:
  "find (\<lambda>item. number item = n) ts = Some r \<Longrightarrow> number (f r) = n \<Longrightarrow>
   find (\<lambda>item. number item = n) (find_and_assign n f ts) = Some (f r)"
  by (induction ts) (auto split: if_splits)

lemma perform_numbers:
  "(\<forall>w \<in> set (writes [ev]). p_number (snd w) = None) \<Longrightarrow>
   map number (videoTasks (perform now ev store)) = map number (videoTasks store)"
  by (cases ev)
    (auto simp: updateVideoTask_eq Object_assign_def assign_field_def intro!: find_and_assign_numbers)

lemma persist_numbers:
  "\<forall>w \<in> set (writes evs). p_number (snd w) = None \<Longrightarrow>
   map number (videoTasks (persist clock k evs store)) = map number (videoTasks store)"
proof (induction evs arbitrary: k store)
  case Nil
  then show ?case by simp
next
  case (Cons ev evs)
  have "writes (ev # evs) = writes [ev] @ writes evs"
    using writes_append [of "[ev]" evs] by simp
  with Cons.prems have a: "\<forall>w \<in> set (writes [ev]). p_number (snd w) = None"
    and b: "\<forall>w \<in> set (writes evs). p_number (snd w) = None" by auto
  show ?case
    using Cons.IH [OF b] perform_numbers [OF a] by simp
qed

lemma find_task_defined:
  "find_task n store \<noteq> None \<longleftrightarrow> n \<in> set (map number (videoTasks store))"
  by (auto simp: find_task_def find_None_iff)

lemma persist_last_write:
  fixes store :: "'c AppData_scheme"
  assumes "\<forall>w \<in> set (writes evs). p_number (snd w) = None"
    and "find_task n store \<noteq> None" and "p_number patch = None"
  shows "\<exists>r. find_task n (persist clock k (evs @ [Write n patch]) store) =
               Some (Object_assign r patch (clock (k + length evs)))"
proof -
  have "find_task n (persist clock k evs store) \<noteq> None"
    unfolding find_task_defined
    using assms(2) [unfolded find_task_defined] persist_numbers [OF assms(1), of clock k store]
    by simp
  then obtain r where r: "find_task n (persist clock k evs store) = Some r" by auto
  have "number (Object_assign r patch (clock (k + length evs))) = n"
    using r assms(3) by (auto simp: Object_assign_def assign_field_def find_task_def find_Some_iff)
  then have "find_task n (persist clock k (evs @ [Write n patch]) store) =
               Some (Object_assign r patch (clock (k + length evs)))"
    using r by (simp add: persist_append find_task_def updateVideoTask_eq find_and_assign_find)
  then show ?thesis by blast
qed

subsection \<open>Selection\<close>

lemma targets_filter:
  "targets numbers tasks =
     filter (\<lambda>item. (case numbers of None \<Rightarrow> True | Some [] \<Rightarrow> True | Some ns \<Rightarrow> number item \<in> set ns)
                 \<and> (status item = STATUS_WAITING \<or> status item = STATUS_FAILED)) tasks"
proof (cases numbers)
  case None
  then show ?thesis
    by (auto simp: targets_def intro: filter_cong)
next
  case (Some ns)
  then show ?thesis
    by (cases ns) (auto simp: targets_def intro: filter_cong)
qed

subsection \<open>Effects of the HTTP layer and of the downloader\<close>

lemma fetchJson_loop_writes:
  "writes (snd (fetchJson_loop rt net url config timeoutMs retries attempt lastError)) = []"
proof (induction rt net url config timeoutMs retries attempt lastError rule: fetchJson_loop.induct)
  case (1 rt net url config timeoutMs retries attempt lastError)
  then show ?case
    by (subst fetchJson_loop.simps) (auto simp: after_simps writes_append split: sum.splits)
qed

lemma fetchJson_loop_written_progress:
  "written_progress (snd (fetchJson_loop rt net url config timeoutMs retries attempt lastError)) = []"
proof (induction rt net url config timeoutMs retries attempt lastError rule: fetchJson_loop.induct)
  case (1 rt net url config timeoutMs retries attempt lastError)
  then show ?case
    by (subst fetchJson_loop.simps)
      (auto simp: after_simps written_progress_append split: sum.splits)
qed

lemma fetchJson_loop_requests:
  "ev \<in> set (snd (fetchJson_loop rt net url config timeoutMs retries attempt lastError)) \<Longrightarrow>
   ev = Http url (fst config) (snd config) \<or> (\<exists>ms. ev = Sleep ms)"
proof (induction rt net url config timeoutMs retries attempt lastError rule: fetchJson_loop.induct)
  case (1 rt net url config timeoutMs retries attempt lastError)
  from "1.prems" show ?case
    by (subst (asm) fetchJson_loop.simps)
      (auto simp: after_simps split: sum.splits if_splits dest: "1.IH")
qed

lemma downloadVideo_writes: "writes (snd (downloadVideo rt env url n saveDir)) = []"
  by (simp add: downloadVideo_def Let_def split: option.splits sum.splits fetch_result.splits)

lemma downloadVideo_written_progress:
  "written_progress (snd (downloadVideo rt env url n saveDir)) = []"
  by (simp add: downloadVideo_def Let_def split: option.splits sum.splits fetch_result.splits)

lemma downloadVideo_no_request:
  "ev \<in> set (snd (downloadVideo rt env url n saveDir)) \<Longrightarrow> \<not> is_poll_request ev"
  by (auto simp add: downloadVideo_def Let_def split: option.splits sum.splits fetch_result.splits if_splits)


lemma fetchJson_writes: "fetchJson rt net url config t r = (res, evs) \<Longrightarrow> writes evs = []"
  using fetchJson_loop_writes [of rt net url config t r 1 None] by (simp add: fetchJson_def)

lemma fetchJson_written_progress:
  "fetchJson rt net url config t r = (res, evs) \<Longrightarrow> written_progress evs = []"
  using fetchJson_loop_written_progress [of rt net url config t r 1 None]
  by (simp add: fetchJson_def)

lemma downloadVideo_writes': "downloadVideo rt env url n saveDir = (res, dl) \<Longrightarrow> writes dl = []"
  using downloadVideo_writes [of rt env url n saveDir] by simp

lemma downloadVideo_written_progress':
  "downloadVideo rt env url n saveDir = (res, dl) \<Longrightarrow> written_progress dl = []"
  using downloadVideo_written_progress [of rt env url n saveDir] by simp

lemma status_distinct:
  "STATUS_POLLING k \<noteq> STATUS_FAILED" "STATUS_DOWNLOADING \<noteq> STATUS_FAILED"
  "STATUS_SUCCESS \<noteq> STATUS_FAILED" "STATUS_SUBMITTED \<noteq> STATUS_FAILED"
  "STATUS_GENERATING \<noteq> STATUS_FAILED"
  by (simp_all add: STATUS_POLLING_def STATUS_FAILED_def STATUS_DOWNLOADING_def
        STATUS_SUCCESS_def STATUS_SUBMITTED_def STATUS_GENERATING_def)

lemma poll_body_writes:
  "w \<in> set (writes (snd (poll_body rt env task key saveDir url k))) \<Longrightarrow> ok_write task w"
  by (auto simp: poll_body_def after_simps writes_append fetchJson_writes downloadVideo_writes'
        ok_write_def no_patch_def status_distinct Let_def
      split: prod.splits sum.splits if_splits)

lemma poll_body_progress:
  "(fst (poll_body rt env task key saveDir url k) = Continue \<longrightarrow>
      written_progress (snd (poll_body rt env task key saveDir url k))
        \<in> {[], [min 90 (15 + int k * 2)]})
   \<and> (fst (poll_body rt env task key saveDir url k) \<noteq> Continue \<longrightarrow>
      written_progress (snd (poll_body rt env task key saveDir url k)) \<in> {[], [95], [95, 100]})"
  by (auto simp: poll_body_def after_simps written_progress_append fetchJson_written_progress
        downloadVideo_written_progress' no_patch_def Let_def
      split: prod.splits sum.splits if_splits)

lemma poll_body_continue:
  assumes "poll_answer rt env key url k = Inr d" and "still_generating d"
  shows "fst (poll_body rt env task key saveDir url k) = Continue"
  using assms
  by (auto simp: poll_body_def poll_answer_def still_generating_def payload_of_def after_simps
        Let_def split: prod.splits sum.splits)

lemma poll_body_success:
  assumes "poll_answer rt env key url k = Inr d" and "reports_success d"
    and "resultUrls_of d = JArr (u # us)"
    and "downloadVideo rt env (Some u) (number task) saveDir = (Inr (lp, fn), dl)"
  shows "\<exists>evs. poll_body rt env task key saveDir url k =
           (Return, evs @ [Write (number task)
              (no_patch\<lparr>p_status := Some STATUS_SUCCESS, p_progress := Some 100,
                 p_localPath := Some (Some lp), p_remoteUrl := Some (Some u),
                 p_actualFilename := Some (Some fn), p_errorMsg := Some []\<rparr>)])"
  using assms
  by (auto simp: poll_body_def poll_answer_def reports_success_def resultUrls_of_def
        payload_of_def after_def Let_def split: prod.splits sum.splits)

lemma fetchJson_catch_wait:
  "fetchJson_catch rt timeoutMs retries attempt error = Inr ms \<Longrightarrow>
   attempt < retries \<and> (ms = attempt * 1000 \<or> ms = attempt * 2000)"
  by (cases error) (auto simp: fetchJson_catch_def split: if_splits option.splits)

lemma fetchJson_loop_sleeps:
  "Sleep ms \<in> set (snd (fetchJson_loop rt net url config timeoutMs retries attempt lastError)) \<Longrightarrow>
   \<exists>a. attempt \<le> a \<and> a < retries \<and> (ms = a * 1000 \<or> ms = a * 2000)"
proof (induction rt net url config timeoutMs retries attempt lastError rule: fetchJson_loop.induct)
  case (1 rt net url config timeoutMs retries attempt lastError)
  show ?case
  proof (cases "attempt \<le> retries")
    case False
    with "1.prems" show ?thesis by (subst (asm) fetchJson_loop.simps) simp
  next
    case le: True
    show ?thesis
    proof (cases "fetchJson_try rt (net attempt)")
      case (Inr d)
      with "1.prems" le show ?thesis by (subst (asm) fetchJson_loop.simps) simp
    next
      case (Inl error)
      show ?thesis
      proof (cases "fetchJson_catch rt timeoutMs retries attempt error")
        case (Inl e)
        with "1.prems" le \<open>fetchJson_try rt (net attempt) = Inl error\<close> show ?thesis
          by (subst (asm) fetchJson_loop.simps) simp
      next
        case (Inr w)
        note c = fetchJson_catch_wait [OF Inr]
        from "1.prems" le \<open>fetchJson_try rt (net attempt) = Inl error\<close> Inr
        have "ms = w \<or> Sleep ms \<in> set (snd (fetchJson_loop rt net url config timeoutMs retries
                 (attempt + 1) (Some error)))"
          by (subst (asm) fetchJson_loop.simps) (auto simp: after_simps)
        then show ?thesis
        proof
          assume "ms = w"
          with c show ?thesis by auto
        next
          assume "Sleep ms \<in> set (snd (fetchJson_loop rt net url config timeoutMs retries
                 (attempt + 1) (Some error)))"
          from "1.IH" [OF le \<open>fetchJson_try rt (net attempt) = Inl error\<close> Inr this]
          obtain a where "attempt + 1 \<le> a" "a < retries" "ms = a * 1000 \<or> ms = a * 2000"
            by auto
          then show ?thesis by (intro exI [of _ a]) auto
        qed
      qed
    qed
  qed
qed

lemma fetchJson_no_poll_wait:
  "fetchJson rt net url config t 3 = (res, evs) \<Longrightarrow> Sleep pollInterval \<notin> set evs"
proof
  assume a: "fetchJson rt net url config t 3 = (res, evs)" and "Sleep pollInterval \<in> set evs"
  then have "Sleep pollInterval \<in> set (snd (fetchJson_loop rt net url config t 3 1 None))"
    by (simp add: fetchJson_def)
  from fetchJson_loop_sleeps [OF this]
  obtain a where "1 \<le> a" "a < 3" "pollInterval = a * 1000 \<or> pollInterval = a * 2000" by auto
  then show False by (auto simp: pollInterval_def)
qed

subsection \<open>The poll loop\<close>

lemma poll_loop_writes:
  "w \<in> set (writes (snd (poll_loop rt env task key saveDir url c))) \<Longrightarrow> ok_write task w"
proof (induction rt env task key saveDir url c rule: poll_loop.induct)
  case (1 rt env task key saveDir url c)
  from "1.prems" show ?case
    apply (subst (asm) poll_loop.simps)
    apply (auto simp: after_simps writes_append split: if_splits prod.splits control.splits)
      apply (metis poll_body_writes snd_conv)
      apply (metis "1.IH" Suc_eq_plus1)
     apply (metis poll_body_writes snd_conv)
    apply (metis poll_body_writes snd_conv)
    done
qed

lemma poll_loop_progress:
  "sorted (written_progress (snd (poll_loop rt env task key saveDir url c)))
   \<and> (\<forall>v \<in> set (written_progress (snd (poll_loop rt env task key saveDir url c))).
         min 90 (15 + (int c + 1) * 2) \<le> v \<and> v \<le> 100)"
proof (induction rt env task key saveDir url c rule: poll_loop.induct)
  case (1 rt env task key saveDir url c)
  show ?case
  proof (cases "c < maxPollTimes")
    case False
    then show ?thesis by (subst poll_loop.simps, subst (2) poll_loop.simps) simp
  next
    case True
    obtain ctl evs where b: "poll_body rt env task key saveDir url (c + 1) = (ctl, evs)"
      by (cases "poll_body rt env task key saveDir url (c + 1)")
    have pb: "(ctl = Continue \<longrightarrow> written_progress evs \<in> {[], [min 90 (15 + int (c + 1) * 2)]})
            \<and> (ctl \<noteq> Continue \<longrightarrow> written_progress evs \<in> {[], [95], [95, 100]})"
      using poll_body_progress [of rt env task key saveDir url "c + 1"] b by simp
    show ?thesis
    proof (cases ctl)
      case Continue
      have ih: "sorted (written_progress (snd (poll_loop rt env task key saveDir url (c + 1))))
        \<and> (\<forall>v \<in> set (written_progress (snd (poll_loop rt env task key saveDir url (c + 1)))).
              min 90 (15 + (int (c + 1) + 1) * 2) \<le> v \<and> v \<le> 100)"
        using "1.IH" [OF True b [symmetric]] Continue by simp
      have eq: "snd (poll_loop rt env task key saveDir url c) =
                evs @ snd (poll_loop rt env task key saveDir url (c + 1))"
        using True b Continue by (subst poll_loop.simps) (simp add: after_simps)
      from pb Continue have "written_progress evs \<in> {[], [min 90 (15 + int (c + 1) * 2)]}"
        by simp
      with ih show ?thesis
        unfolding eq written_progress_append
        by (auto simp: sorted_append)
    next
      case Return
      have eq: "snd (poll_loop rt env task key saveDir url c) = evs"
        using True b Return by (subst poll_loop.simps) simp
      from pb Return show ?thesis unfolding eq by auto
    next
      case (Throw e)
      have eq: "snd (poll_loop rt env task key saveDir url c) = evs"
        using True b Throw by (subst poll_loop.simps) simp
      from pb Throw show ?thesis unfolding eq by auto
    qed
  qed
qed

lemma poll_loop_exhausts:
  "\<forall>k. c < k \<and> k \<le> maxPollTimes \<longrightarrow> fst (poll_body rt env task key saveDir url k) = Continue \<Longrightarrow>
   poll_loop rt env task key saveDir url c =
     (Inl (Plain (new_Error POLL_TIMEOUT_MSG)),
      concat (map (\<lambda>k. snd (poll_body rt env task key saveDir url k)) [c + 1 ..< maxPollTimes + 1]))"
proof (induction rt env task key saveDir url c rule: poll_loop.induct)
  case (1 rt env task key saveDir url c)
  show ?case
  proof (cases "c < maxPollTimes")
    case False
    then show ?thesis by (subst poll_loop.simps) simp
  next
    case True
    obtain evs where b: "poll_body rt env task key saveDir url (c + 1) = (Continue, evs)"
      using "1.prems" True by (cases "poll_body rt env task key saveDir url (c + 1)") auto
    have ih: "poll_loop rt env task key saveDir url (c + 1) =
     (Inl (Plain (new_Error POLL_TIMEOUT_MSG)),
      concat (map (\<lambda>k. snd (poll_body rt env task key saveDir url k)) [c + 1 + 1 ..< maxPollTimes + 1]))"
      using "1.IH" [OF True b [symmetric]] "1.prems" by simp
    have up: "[c + 1 ..< maxPollTimes + 1] = (c + 1) # [c + 1 + 1 ..< maxPollTimes + 1]"
      using True by (simp add: upt_conv_Cons)
    have step: "poll_loop rt env task key saveDir url c =
                  after evs (poll_loop rt env task key saveDir url (c + 1))"
      using True b by (subst poll_loop.simps) simp
    show ?thesis
      unfolding step ih up using b by (simp add: after_def del: upt_Suc)
  qed
qed

lemma poll_loop_succeeds:
  "c < m \<Longrightarrow> m \<le> maxPollTimes \<Longrightarrow>
   \<forall>k. c < k \<and> k < m \<longrightarrow> fst (poll_body rt env task key saveDir url k) = Continue \<Longrightarrow>
   poll_body rt env task key saveDir url m = (Return, evs @ [w]) \<Longrightarrow>
   \<exists>evs'. poll_loop rt env task key saveDir url c = (Inr (), evs' @ [w])"
proof (induction rt env task key saveDir url c rule: poll_loop.induct)
  case (1 rt env task key saveDir url c)
  have lt: "c < maxPollTimes" using "1.prems" by simp
  show ?case
  proof (cases "c + 1 = m")
    case True
    then show ?thesis
      using lt "1.prems" by (subst poll_loop.simps) auto
  next
    case False
    then have cm: "c + 1 < m" using "1.prems" by simp
    obtain evs0 where b: "poll_body rt env task key saveDir url (c + 1) = (Continue, evs0)"
      using "1.prems" cm by (cases "poll_body rt env task key saveDir url (c + 1)") auto
    obtain evs' where "poll_loop rt env task key saveDir url (c + 1) = (Inr (), evs' @ [w])"
      using "1.IH" [OF lt b [symmetric] _ cm] "1.prems" by auto
    then show ?thesis
      using lt b by (subst poll_loop.simps) (auto simp: after_def)
  qed
qed

subsection \<open>The pipeline\<close>

lemma processVideoTask_try_writes:
  "w \<in> set (writes (snd (processVideoTask_try rt env task key saveDir))) \<Longrightarrow> ok_write task w"
  by (auto simp: processVideoTask_try_def after_simps writes_append fetchJson_writes Let_def
        ok_write_def no_patch_def status_distinct
      split: prod.splits sum.splits option.splits if_splits dest: poll_loop_writes)

lemma processVideoTask_writes:
  assumes "w \<in> set (writes (snd (processVideoTask rt env task key saveDir)))"
  shows "ok_write task w"
proof -
  obtain res evs where t: "processVideoTask_try rt env task key saveDir = (res, evs)"
    by (cases "processVideoTask_try rt env task key saveDir")
  have evs: "\<And>w. w \<in> set (writes evs) \<Longrightarrow> ok_write task w"
    using processVideoTask_try_writes [of _ rt env task key saveDir] t by simp
  show ?thesis
  proof (cases res)
    case (Inl error)
    with assms t have "w \<in> set (writes evs) \<or> ok_write task w"
      by (auto simp: processVideoTask_def after_simps writes_append ok_write_def no_patch_def
            status_distinct)
    with evs show ?thesis by blast
  next
    case (Inr u)
    with assms t have "w \<in> set (writes evs) \<or> ok_write task w"
      by (auto simp: processVideoTask_def after_simps writes_append ok_write_def no_patch_def
            status_distinct)
    with evs show ?thesis by blast
  qed
qed

lemma processVideoTask_returns: "fst (processVideoTask rt env task key saveDir) = Inr ()"
  by (simp add: processVideoTask_def after_simps split: prod.splits sum.splits)

lemma errorMessage_of_new_Error: "m \<noteq> [] \<Longrightarrow> errorMessage_of (Plain (new_Error m)) = m"
  by (simp add: errorMessage_of_def new_Error_def)

text \<open>The trace of a pipeline that ends with a throw inside the try block.\<close>

lemma processVideoTask_failure:
  assumes "processVideoTask_try rt env task key saveDir = (Inl error, evs)"
  shows "snd (processVideoTask rt env task key saveDir) =
           (Write (number task)
              (no_patch\<lparr>p_status := Some STATUS_GENERATING, p_errorMsg := Some [],
                 p_progress := Some 5\<rparr>) # evs) @
           [Write (number task)
              (no_patch\<lparr>p_status := Some STATUS_FAILED,
                 p_errorMsg := Some (errorMessage_of error)\<rparr>)]"
  using assms by (simp add: processVideoTask_def after_def)

lemma processVideoTask_last_write:
  fixes store :: "'c AppData_scheme"
  assumes "snd (processVideoTask rt env task key saveDir) = evs @ [Write (number task) patch]"
    and "find_task (number task) store \<noteq> None"
  shows "\<exists>r now. find_task (number task)
                 (persist clock k (snd (processVideoTask rt env task key saveDir)) store) =
               Some (Object_assign r patch now)"
proof -
  have all: "\<forall>w \<in> set (writes (evs @ [Write (number task) patch])). ok_write task w"
    using processVideoTask_writes [of _ rt env task key saveDir] assms(1) by auto
  then have a: "\<forall>w \<in> set (writes evs). p_number (snd w) = None"
    and b: "p_number patch = None"
    by (auto simp: writes_append ok_write_def)
  from persist_last_write [OF a assms(2) b, of clock k] show ?thesis
    unfolding assms(1) by blast
qed

subsection \<open>Shapes of the traces\<close>

lemma generate_is_not_poll: "\<not> is_poll_request (Http GENERATE_URL method auth)"
  by (simp add: GENERATE_URL_def RECORD_URL_def js_def)

lemma fetchJson_requests:
  "fetchJson rt net url config t r = (res, evs) \<Longrightarrow> ev \<in> set evs \<Longrightarrow>
   ev = Http url (fst config) (snd config) \<or> (\<exists>ms. ev = Sleep ms)"
  using fetchJson_loop_requests [of ev rt net url config t r 1 None]
  by (simp add: fetchJson_def)

lemma fetchJson_snd_writes: "writes (snd (fetchJson rt net url config t r)) = []"
  using fetchJson_loop_writes [of rt net url config t r 1 None] by (simp add: fetchJson_def)

lemma fetchJson_snd_requests:
  "ev \<in> set (snd (fetchJson rt net url config t r)) \<Longrightarrow>
   ev = Http url (fst config) (snd config) \<or> (\<exists>ms. ev = Sleep ms)"
  using fetchJson_loop_requests [of ev rt net url config t r 1 None]
  by (simp add: fetchJson_def)

lemma NO_TASK_ID_MSG_nonempty: "NO_TASK_ID_MSG @ s \<noteq> []"
  by (simp add: NO_TASK_ID_MSG_def)

lemma POLL_TIMEOUT_MSG_nonempty: "POLL_TIMEOUT_MSG \<noteq> []"
  by (simp add: POLL_TIMEOUT_MSG_def)

lemma processVideoTask_try_without_taskId:
  assumes "submit_answer rt env key = Inr generateResponse"
    and "\<not> truthy (taskId_of generateResponse)"
  shows "processVideoTask_try rt env task key saveDir =
           (Inl (Plain (new_Error (NO_TASK_ID_MSG @ take 500 (JSON_stringify rt generateResponse)))),
            snd (fetchJson rt (submit_net env) GENERATE_URL (js ''POST'', js ''Bearer '' @ key)
                   900000 3))"
  using assms
  by (auto simp: processVideoTask_try_def submit_answer_def taskId_of_def Let_def
        split: prod.splits sum.splits)

lemma processVideoTask_try_submitted:
  assumes "submit_answer rt env key = Inr generateResponse"
    and "taskId_of generateResponse = Some tid" and "truthy (Some tid)"
  shows "processVideoTask_try rt env task key saveDir =
           after (snd (fetchJson rt (submit_net env) GENERATE_URL
                         (js ''POST'', js ''Bearer '' @ key) 900000 3) @
                  [Write (number task)
                     (no_patch\<lparr>p_status := Some STATUS_SUBMITTED, p_progress := Some 15\<rparr>)])
             (poll_loop rt env task key saveDir (pollUrl rt tid) 0)"
  using assms
  by (auto simp: processVideoTask_try_def submit_answer_def taskId_of_def Let_def
        split: prod.splits sum.splits)


lemma downloadVideo_no_wait:
  "downloadVideo rt env url n saveDir = (res, dl) \<Longrightarrow> filter (\<lambda>ev. ev = Sleep ms) dl = []"
  by (auto simp: downloadVideo_def Let_def
      split: option.splits sum.splits fetch_result.splits if_splits)

lemma fetchJson_no_poll_wait':
  "fetchJson rt net url config t 3 = (res, evs) \<Longrightarrow> filter (\<lambda>ev. ev = Sleep pollInterval) evs = []"
  using fetchJson_no_poll_wait [of rt net url config t res evs]
  by (auto simp: filter_empty_conv)

lemma poll_body_waits_once:
  "filter (\<lambda>ev. ev = Sleep pollInterval) (snd (poll_body rt env task key saveDir url k)) =
     [Sleep pollInterval]"
  by (auto simp: poll_body_def after_simps Let_def fetchJson_no_poll_wait' downloadVideo_no_wait
      split: prod.splits sum.splits)

lemma filter_concat_map_singleton:
  "(\<And>x. x \<in> set xs \<Longrightarrow> filter P (f x) = [a]) \<Longrightarrow>
   length (filter P (concat (map f xs))) = length xs"
  by (induction xs) auto


lemma poll_loop_progress_shape:
  "\<exists>ks tail.
     written_progress (snd (poll_loop rt env task key saveDir url c)) =
       map (\<lambda>k. min 90 (15 + int k * 2)) ks @ tail
     \<and> sorted_wrt (<) ks \<and> (\<forall>k \<in> set ks. c < k \<and> k \<le> maxPollTimes)
     \<and> tail \<in> {[], [95], [95, 100]}"
proof (induction rt env task key saveDir url c rule: poll_loop.induct)
  case (1 rt env task key saveDir url c)
  let ?f = "\<lambda>k. min 90 (15 + int k * 2)"
  show ?case
  proof (cases "c < maxPollTimes")
    case False
    then have "written_progress (snd (poll_loop rt env task key saveDir url c)) = map ?f [] @ []"
      by (subst poll_loop.simps) simp
    then show ?thesis by (intro exI [of _ "[]"]) auto
  next
    case True
    obtain ctl evs where b: "poll_body rt env task key saveDir url (c + 1) = (ctl, evs)"
      by (cases "poll_body rt env task key saveDir url (c + 1)")
    have pb: "(ctl = Continue \<longrightarrow> written_progress evs \<in> {[], [?f (c + 1)]})
            \<and> (ctl \<noteq> Continue \<longrightarrow> written_progress evs \<in> {[], [95], [95, 100]})"
      using poll_body_progress [of rt env task key saveDir url "c + 1"] b by simp
    show ?thesis
    proof (cases "ctl = Continue")
      case True
      from "1.IH" [OF \<open>c < maxPollTimes\<close> b [symmetric]] True
      obtain ks tail where ih:
        "written_progress (snd (poll_loop rt env task key saveDir url (c + 1))) = map ?f ks @ tail"
        "sorted_wrt (<) ks" "\<forall>k \<in> set ks. c + 1 < k \<and> k \<le> maxPollTimes"
        "tail \<in> {[], [95], [95, 100]}"
        by blast
      have eq: "snd (poll_loop rt env task key saveDir url c) =
                evs @ snd (poll_loop rt env task key saveDir url (c + 1))"
        using \<open>c < maxPollTimes\<close> b True by (subst poll_loop.simps) (simp add: after_simps)
      from pb True consider "written_progress evs = []" | "written_progress evs = [?f (c + 1)]"
        by auto
      then show ?thesis
      proof cases
        case 1
        then have "written_progress (snd (poll_loop rt env task key saveDir url c)) =
            map ?f ks @ tail"
          unfolding eq written_progress_append ih(1) by simp
        moreover have "\<forall>k \<in> set ks. c < k \<and> k \<le> maxPollTimes"
          using ih(3) by auto
        ultimately show ?thesis using ih(2,4) by blast
      next
        case 2
        then have "written_progress (snd (poll_loop rt env task key saveDir url c)) =
            map ?f ((c + 1) # ks) @ tail"
          unfolding eq written_progress_append ih(1) by simp
        moreover have "\<forall>k \<in> set ((c + 1) # ks). c < k \<and> k \<le> maxPollTimes"
          using ih(3) \<open>c < maxPollTimes\<close> by auto
        moreover have "sorted_wrt (<) ((c + 1) # ks)"
          using ih(2,3) by auto
        ultimately show ?thesis using ih(4) by blast
      qed
    next
      case False
      have eq: "snd (poll_loop rt env task key saveDir url c) = evs"
        using \<open>c < maxPollTimes\<close> b False
        by (subst poll_loop.simps) (simp split: control.splits)
      from pb False have "written_progress evs \<in> {[], [95], [95, 100]}" by simp
      then have "written_progress (snd (poll_loop rt env task key saveDir url c)) =
            map ?f [] @ written_progress evs \<and> written_progress evs \<in> {[], [95], [95, 100]}"
        unfolding eq by simp
      then show ?thesis by (intro exI [of _ "[]"] exI [of _ "written_progress evs"]) simp
    qed
  qed
qed

lemma fetchJson_snd_written_progress:
  "written_progress (snd (fetchJson rt net url config t r)) = []"
  using fetchJson_loop_written_progress [of rt net url config t r 1 None]
  by (simp add: fetchJson_def)

lemma processVideoTask_try_progress:
  "written_progress (snd (processVideoTask_try rt env task key saveDir)) = []
   \<or> (\<exists>url. written_progress (snd (processVideoTask_try rt env task key saveDir)) =
          15 # written_progress (snd (poll_loop rt env task key saveDir url 0)))"
proof -
  obtain res evs where f: "fetchJson rt (submit_net env) GENERATE_URL
      (js ''POST'', js ''Bearer '' @ key) 900000 3 = (res, evs)"
    by (cases "fetchJson rt (submit_net env) GENERATE_URL (js ''POST'', js ''Bearer '' @ key)
                 900000 3")
  have e: "written_progress evs = []"
    using fetchJson_written_progress [OF f] .
  show ?thesis
    using f e
    by (auto simp: processVideoTask_try_def Let_def after_simps written_progress_append
          no_patch_def split: sum.splits option.splits if_splits)
qed

lemma processVideoTask_progress_eq:
  "written_progress (snd (processVideoTask rt env task key saveDir)) =
     5 # written_progress (snd (processVideoTask_try rt env task key saveDir))"
  by (auto simp: processVideoTask_def after_simps written_progress_append no_patch_def
      split: prod.splits sum.splits)

lemma updateVideoTask_keeps_progress:
  fixes store :: "'c AppData_scheme"
  assumes "p_progress patch = None"
  shows "map progress (videoTasks (updateVideoTask now n patch store)) =
         map progress (videoTasks store)"
proof -
  have "map progress (find_and_assign n (\<lambda>task. Object_assign task patch now) ts) =
        map progress ts" for ts
    using assms by (induction ts) (auto simp: Object_assign_def assign_field_def)
  then show ?thesis by (simp add: updateVideoTask_eq)
qed

lemma find_isl_returns:
  "\<forall>r \<in> set rs. r = Inr () \<Longrightarrow> find isl rs = None"
  by (induction rs) auto

lemma generateVideos_returns:
  fixes store :: "'c AppData_scheme"
  assumes "pickVideoApiKey rt (KIE_API_KEY penv) store = Inr ks"
    and "targets numbers (videoTasks store) \<noteq> []"
  shows "outcome (generateVideos rt penv numbers store) = Inr \<lparr> success = True, message = None \<rparr>"
proof -
  obtain k src where ks: "ks = (k, src)" by (cases ks)
  let ?runs = "map (\<lambda>(i, task). processVideoTask rt (pipeline penv i) task k
                      (resolveSaveDir rt (savePath (videoSettings store))))
                 (enumerate 0 (targets numbers (videoTasks store)))"
  have "\<forall>r \<in> set (map fst ?runs). r = Inr ()"
    by (auto simp: processVideoTask_returns)
  then have "find isl (map fst ?runs) = None"
    by (rule find_isl_returns)
  then show ?thesis
    using assms ks by (simp add: generateVideos_def readAppData_def Let_def)
qed

section \<open>Properties\<close>

text \<open>
  C8. For every call \<open>updateVideoTask(number, patch)\<close>: the document written back differs
  from the one read in its task collection only; the collection keeps its length; when
  position \<open>i\<close> holds the first task whose number equals the given number, that task
  receives exactly the fields of the patch and the fresh stamp \<open>updatedAt\<close> (which also
  replaces an \<open>updatedAt\<close> of the patch) and keeps every other field, and every other
  position keeps its record; when no task carries the number the document is unchanged,
  and the call raises nothing (the function is total).
\<close>

theorem updateVideoTask_frame:
  fixes store :: "'c AppData_scheme"
  shows "updateVideoTask now n patch store =
           store\<lparr>videoTasks := videoTasks (updateVideoTask now n patch store)\<rparr>
       \<and> length (videoTasks (updateVideoTask now n patch store)) = length (videoTasks store)
       \<and> (\<forall>i < length (videoTasks store).
            number (videoTasks store ! i) = n \<and> (\<forall>j<i. number (videoTasks store ! j) \<noteq> n) \<longrightarrow>
              receives_patch (videoTasks store ! i) patch now
                (videoTasks (updateVideoTask now n patch store) ! i)
            \<and> (\<forall>j < length (videoTasks store). j \<noteq> i \<longrightarrow>
                  videoTasks (updateVideoTask now n patch store) ! j = videoTasks store ! j))
       \<and> ((\<forall>t \<in> set (videoTasks store). number t \<noteq> n) \<longrightarrow>
             updateVideoTask now n patch store = store)"
proof (intro conjI allI impI)
  show "updateVideoTask now n patch store =
           store\<lparr>videoTasks := videoTasks (updateVideoTask now n patch store)\<rparr>"
    by (simp add: updateVideoTask_eq)
  show "length (videoTasks (updateVideoTask now n patch store)) = length (videoTasks store)"
    by (simp add: updateVideoTask_eq find_and_assign_length)
next
  fix i
  assume i: "i < length (videoTasks store)"
    and m: "number (videoTasks store ! i) = n \<and> (\<forall>j<i. number (videoTasks store ! j) \<noteq> n)"
  have eq: "videoTasks (updateVideoTask now n patch store) =
          (videoTasks store)[i := Object_assign (videoTasks store ! i) patch now]"
    using find_and_assign_first [of i "videoTasks store" n] i m
    by (simp add: updateVideoTask_eq)
  show "receives_patch (videoTasks store ! i) patch now
          (videoTasks (updateVideoTask now n patch store) ! i)"
    using i by (simp add: eq Object_assign_receives_patch)
  fix j
  assume "j < length (videoTasks store)" "j \<noteq> i"
  then show "videoTasks (updateVideoTask now n patch store) ! j = videoTasks store ! j"
    by (simp add: eq)
next
  assume "\<forall>t \<in> set (videoTasks store). number t \<noteq> n"
  then show "updateVideoTask now n patch store = store"
    by (simp add: updateVideoTask_eq find_and_assign_no_match)
qed

theorem updateVideoTask_frame_witness:
  "receives_patch (example_task (js ''2'') STATUS_WAITING)
     (no_patch\<lparr>p_status := Some STATUS_GENERATING\<rparr>) (js ''2025-02-02'')
     (videoTasks (updateVideoTask (js ''2025-02-02'') (js ''2'')
        (no_patch\<lparr>p_status := Some STATUS_GENERATING\<rparr>) example_store) ! 1)
   \<and> videoTasks (updateVideoTask (js ''2025-02-02'') (js ''2'')
        (no_patch\<lparr>p_status := Some STATUS_GENERATING\<rparr>) example_store) ! 2
       = example_task (js ''2'') STATUS_FAILED
   \<and> updateVideoTask (js ''2025-02-02'') (js ''9'')
        (no_patch\<lparr>p_status := Some STATUS_GENERATING\<rparr>) example_store = example_store"
proof -
  let ?p = "no_patch\<lparr>p_status := Some STATUS_GENERATING\<rparr>"
  have len: "(1::nat) < length (videoTasks example_store)"
    by (simp add: example_store_def)
  have first: "number (videoTasks example_store ! 1) = js ''2''
      \<and> (\<forall>j<1. number (videoTasks example_store ! j) \<noteq> js ''2'')"
    by (simp add: example_store_def example_task_def js_def)
  have none: "\<forall>t \<in> set (videoTasks example_store). number t \<noteq> js ''9''"
    by (simp add: example_store_def example_task_def js_def)
  note hit = updateVideoTask_frame [of "js ''2025-02-02''" "js ''2''" ?p example_store]
  note miss = updateVideoTask_frame [of "js ''2025-02-02''" "js ''9''" ?p example_store]
  from hit len first have
    "receives_patch (videoTasks example_store ! 1) ?p (js ''2025-02-02'')
       (videoTasks (updateVideoTask (js ''2025-02-02'') (js ''2'') ?p example_store) ! 1)
     \<and> (\<forall>j < length (videoTasks example_store). j \<noteq> 1 \<longrightarrow>
           videoTasks (updateVideoTask (js ''2025-02-02'') (js ''2'') ?p example_store) ! j
           = videoTasks example_store ! j)"
    by blast
  moreover have "(2::nat) < length (videoTasks example_store)"
    by (simp add: example_store_def)
  moreover have "videoTasks example_store ! 1 = example_task (js ''2'') STATUS_WAITING"
    "videoTasks example_store ! 2 = example_task (js ''2'') STATUS_FAILED"
    by (simp_all add: example_store_def)
  moreover from miss none
  have "updateVideoTask (js ''2025-02-02'') (js ''9'') ?p example_store = example_store"
    by blast
  ultimately show ?thesis by auto
qed

text \<open>
  C1. The tasks that a call of \<open>generateVideos\<close> processes are the tasks of the store,
  in their order, whose number is in the requested list when a non-empty list is given
  (all tasks otherwise) and whose status is the waiting or the failed label; the
  pipelines started are those of exactly these tasks, one each, once a key is resolved.
  When no task is eligible the call returns the no-op result whatever the credential
  sources hold (also when \<open>pickVideoApiKey\<close> would throw), and it starts no pipeline: no
  request is made and no update is written.
\<close>

theorem generateVideos_eligible:
  fixes store :: "'c AppData_scheme"
  shows "targets numbers (videoTasks store) =
           filter (\<lambda>item. (case numbers of None \<Rightarrow> True | Some [] \<Rightarrow> True
                           | Some ns \<Rightarrow> number item \<in> set ns)
                         \<and> (status item = STATUS_WAITING \<or> status item = STATUS_FAILED))
             (videoTasks store)
       \<and> (case pickVideoApiKey rt (KIE_API_KEY penv) store of
            Inl e \<Rightarrow> pipelines (generateVideos rt penv numbers store) = []
          | Inr (key, source) \<Rightarrow>
              pipelines (generateVideos rt penv numbers store) =
                map (\<lambda>(i, task). snd (processVideoTask rt (pipeline penv i) task key
                                        (resolveSaveDir rt (savePath (videoSettings store)))))
                  (enumerate 0 (targets numbers (videoTasks store))))
       \<and> (targets numbers (videoTasks store) = [] \<longrightarrow>
            generateVideos rt penv numbers store =
              \<lparr> outcome = Inr \<lparr> success = False, message = Some NO_TASKS_MSG \<rparr>,
                concurrency = None, pipelines = [] \<rparr>)"
  by (simp add: targets_filter [symmetric] generateVideos_def readAppData_def Let_def
        split: sum.splits prod.splits)

theorem generateVideos_eligible_witness:
  "targets (Some [js ''2'', js ''3'']) (videoTasks example_store) =
     [example_task (js ''2'') STATUS_WAITING, example_task (js ''2'') STATUS_FAILED]
   \<and> generateVideos example_runtime example_process_env (Some [js ''1'', js ''3'']) example_store =
       \<lparr> outcome = Inr \<lparr> success = False, message = Some NO_TASKS_MSG \<rparr>,
         concurrency = None, pipelines = [] \<rparr>"
proof -
  note sel = generateVideos_eligible
    [of "Some [js ''2'', js ''3'']" example_store example_runtime example_process_env]
  note noop = generateVideos_eligible
    [of "Some [js ''1'', js ''3'']" example_store example_runtime example_process_env]
  have a: "targets (Some [js ''2'', js ''3'']) (videoTasks example_store) =
     [example_task (js ''2'') STATUS_WAITING, example_task (js ''2'') STATUS_FAILED]"
    using sel
    by (simp add: example_store_def example_task_def js_def STATUS_WAITING_def
          STATUS_FAILED_def STATUS_SUCCESS_def STATUS_GENERATING_def)
  have "targets (Some [js ''1'', js ''3'']) (videoTasks example_store) = []"
    using noop
    by (simp add: example_store_def example_task_def js_def STATUS_WAITING_def
          STATUS_FAILED_def STATUS_SUCCESS_def STATUS_GENERATING_def)
  with noop have "generateVideos example_runtime example_process_env (Some [js ''1'', js ''3''])
       example_store =
       \<lparr> outcome = Inr \<lparr> success = False, message = Some NO_TASKS_MSG \<rparr>,
         concurrency = None, pipelines = [] \<rparr>"
    by blast
  with a show ?thesis by blast
qed

text \<open>
  C10. A call of \<open>generateVideos\<close> with \<open>numbers\<close> set to the empty array behaves as a
  call without \<open>numbers\<close>: the filter by identity is skipped and every task whose status
  is the waiting or the failed label is selected. With a resolved key the call given the
  empty array starts one pipeline for each of these tasks, in their order: it processes
  all eligible tasks, not none.
\<close>

theorem generateVideos_empty_numbers:
  fixes store :: "'c AppData_scheme"
  shows "generateVideos rt penv (Some []) store = generateVideos rt penv None store
       \<and> targets (Some []) (videoTasks store) =
           filter (\<lambda>item. status item = STATUS_WAITING \<or> status item = STATUS_FAILED)
             (videoTasks store)
       \<and> (\<forall>key source. pickVideoApiKey rt (KIE_API_KEY penv) store = Inr (key, source) \<longrightarrow>
            pipelines (generateVideos rt penv (Some []) store) =
              map (\<lambda>(i, task). snd (processVideoTask rt (pipeline penv i) task key
                                      (resolveSaveDir rt (savePath (videoSettings store)))))
                (enumerate 0
                   (filter (\<lambda>item. status item = STATUS_WAITING \<or> status item = STATUS_FAILED)
                      (videoTasks store)))
          \<and> length (pipelines (generateVideos rt penv (Some []) store)) =
              length (filter (\<lambda>item. status item = STATUS_WAITING \<or> status item = STATUS_FAILED)
                        (videoTasks store)))"
proof -
  let ?el = "filter (\<lambda>item. status item = STATUS_WAITING \<or> status item = STATUS_FAILED)
               (videoTasks store)"
  have t: "targets (Some []) (videoTasks store) = ?el"
    by (simp add: targets_filter)
  have eq: "generateVideos rt penv (Some []) store = generateVideos rt penv None store"
    by (simp add: generateVideos_def targets_filter)
  have run: "pipelines (generateVideos rt penv (Some []) store) =
              map (\<lambda>(i, task). snd (processVideoTask rt (pipeline penv i) task key
                                      (resolveSaveDir rt (savePath (videoSettings store)))))
                (enumerate 0 ?el)"
    if "pickVideoApiKey rt (KIE_API_KEY penv) store = Inr (key, source)" for key source
    using that
    by (cases "?el = []")
      (simp_all add: generateVideos_def readAppData_def t Let_def split_def comp_def)
  have len: "length (pipelines (generateVideos rt penv (Some []) store)) = length ?el"
    if "pickVideoApiKey rt (KIE_API_KEY penv) store = Inr (key, source)" for key source
    using run [OF that] by simp
  from t eq run len show ?thesis by blast
qed

theorem generateVideos_empty_numbers_witness:
  "generateVideos example_runtime example_process_env (Some []) example_store =
     generateVideos example_runtime example_process_env None example_store
   \<and> targets (Some []) (videoTasks example_store) =
       [example_task (js ''2'') STATUS_WAITING, example_task (js ''2'') STATUS_FAILED]
   \<and> pipelines (generateVideos example_runtime example_process_env (Some []) example_store) =
       [snd (processVideoTask example_runtime (pipeline example_process_env 0)
               (example_task (js ''2'') STATUS_WAITING) (js ''k2'')
               (resolveSaveDir example_runtime (savePath (videoSettings example_store)))),
        snd (processVideoTask example_runtime (pipeline example_process_env 1)
               (example_task (js ''2'') STATUS_FAILED) (js ''k2'')
               (resolveSaveDir example_runtime (savePath (videoSettings example_store))))]
   \<and> length (pipelines (generateVideos example_runtime example_process_env (Some [])
                 example_store)) = 2"
proof -
  note inst = generateVideos_empty_numbers [of example_runtime example_process_env example_store]
  have key: "pickVideoApiKey example_runtime (KIE_API_KEY example_process_env) example_store =
      Inr (js ''k2'', js ''video'')"
    by (simp add: pickVideoApiKey_def example_process_env_def example_store_def trim_def
          is_white_space_def is_kie_item_def example_runtime_def KIE_PLATFORMS_def js_def)
  have el: "filter (\<lambda>item. status item = STATUS_WAITING \<or> status item = STATUS_FAILED)
               (videoTasks example_store) =
            [example_task (js ''2'') STATUS_WAITING, example_task (js ''2'') STATUS_FAILED]"
    by (simp add: example_store_def example_task_def STATUS_WAITING_def STATUS_FAILED_def
          STATUS_SUCCESS_def STATUS_GENERATING_def)
  from inst key have "pipelines (generateVideos example_runtime example_process_env (Some [])
        example_store) =
      map (\<lambda>(i, task). snd (processVideoTask example_runtime (pipeline example_process_env i)
                              task (js ''k2'')
                              (resolveSaveDir example_runtime (savePath (videoSettings example_store)))))
        (enumerate 0
           (filter (\<lambda>item. status item = STATUS_WAITING \<or> status item = STATUS_FAILED)
              (videoTasks example_store)))"
    by blast
  then have p: "pipelines (generateVideos example_runtime example_process_env (Some [])
        example_store) =
       [snd (processVideoTask example_runtime (pipeline example_process_env 0)
               (example_task (js ''2'') STATUS_WAITING) (js ''k2'')
               (resolveSaveDir example_runtime (savePath (videoSettings example_store)))),
        snd (processVideoTask example_runtime (pipeline example_process_env 1)
               (example_task (js ''2'') STATUS_FAILED) (js ''k2'')
               (resolveSaveDir example_runtime (savePath (videoSettings example_store))))]"
    unfolding el by simp
  from inst have "generateVideos example_runtime example_process_env (Some []) example_store =
     generateVideos example_runtime example_process_env None example_store"
    and "targets (Some []) (videoTasks example_store) =
      filter (\<lambda>item. status item = STATUS_WAITING \<or> status item = STATUS_FAILED)
               (videoTasks example_store)"
    by blast+
  with p el show ?thesis by simp
qed

text \<open>
  C3. \<open>pickVideoApiKey\<close> resolves the key in this order: the environment value
  \<open>KIE_API_KEY\<close> when it is not blank after trimming (the trimmed value); otherwise the
  key of the video settings when it is not blank after trimming (the trimmed value);
  otherwise the key of the first entry of the key library whose platform, lowercased,
  is one of the four aliases; a later source is used only when every earlier one is
  absent or blank. When no source yields a key \<open>pickVideoApiKey\<close> throws; a call of
  \<open>generateVideos\<close> that reaches the resolution (it does so when some task is eligible)
  then ends with that error, and in every case it starts no pipeline, so that no status
  and no other field of the store is written.
\<close>

theorem pickVideoApiKey_priority:
  fixes data :: "'c AppData_scheme"
  shows "(\<forall>k. envKey = Some k \<and> trim k \<noteq> [] \<longrightarrow>
            pickVideoApiKey rt envKey data = Inr (trim k, js ''environment''))
       \<and> (\<forall>k. blank envKey \<and> vs_apiKey (videoSettings data) = Some k \<and> trim k \<noteq> [] \<longrightarrow>
            pickVideoApiKey rt envKey data = Inr (trim k, js ''videoSettings''))
       \<and> (\<forall>i. blank envKey \<and> blank (vs_apiKey (videoSettings data)) \<and>
              i < length (keyLibrary data) \<and>
              is_kie_item rt (snd (keyLibrary data ! i)) \<and>
              (\<forall>j<i. \<not> is_kie_item rt (snd (keyLibrary data ! j))) \<longrightarrow>
            pickVideoApiKey rt envKey data =
              Inr (apiKey (snd (keyLibrary data ! i)), name (snd (keyLibrary data ! i))))
       \<and> (blank envKey \<and> blank (vs_apiKey (videoSettings data)) \<and>
            (\<forall>item \<in> set (keyLibrary data). \<not> is_kie_item rt (snd item)) \<longrightarrow>
            pickVideoApiKey rt envKey data = Inl (new_Error NO_KEY_MSG))
       \<and> (\<forall>e. pickVideoApiKey rt (KIE_API_KEY penv) data = Inl e \<and>
              targets numbers (videoTasks data) \<noteq> [] \<longrightarrow>
            generateVideos rt penv numbers data =
              \<lparr> outcome = Inl (Plain e), concurrency = None, pipelines = [] \<rparr>)
       \<and> (\<forall>e. pickVideoApiKey rt (KIE_API_KEY penv) data = Inl e \<longrightarrow>
            pipelines (generateVideos rt penv numbers data) = [])
       \<and> (\<forall>item. is_kie_item rt item \<longleftrightarrow>
            (\<exists>p. platform item = Some p \<and>
                 toLowerCase rt p \<in> {js ''kie.ai'', js ''kie'', js ''kei'', js ''kieai''}))"
proof (intro conjI allI impI)
  fix k assume "envKey = Some k \<and> trim k \<noteq> []"
  then show "pickVideoApiKey rt envKey data = Inr (trim k, js ''environment'')"
    by (simp add: pickVideoApiKey_def)
next
  fix k assume "blank envKey \<and> vs_apiKey (videoSettings data) = Some k \<and> trim k \<noteq> []"
  then show "pickVideoApiKey rt envKey data = Inr (trim k, js ''videoSettings'')"
    by (auto simp: pickVideoApiKey_def blank_def split: option.splits)
next
  fix i
  assume a: "blank envKey \<and> blank (vs_apiKey (videoSettings data)) \<and>
              i < length (keyLibrary data) \<and>
              is_kie_item rt (snd (keyLibrary data ! i)) \<and>
              (\<forall>j<i. \<not> is_kie_item rt (snd (keyLibrary data ! j)))"
  then have "find (is_kie_item rt) (map snd (keyLibrary data)) = Some (snd (keyLibrary data ! i))"
    by (auto simp: find_Some_iff intro!: exI [of _ i])
  with a show "pickVideoApiKey rt envKey data =
              Inr (apiKey (snd (keyLibrary data ! i)), name (snd (keyLibrary data ! i)))"
    by (auto simp: pickVideoApiKey_def blank_def split: option.splits)
next
  assume a: "blank envKey \<and> blank (vs_apiKey (videoSettings data)) \<and>
            (\<forall>item \<in> set (keyLibrary data). \<not> is_kie_item rt (snd item))"
  then have "find (is_kie_item rt) (map snd (keyLibrary data)) = None"
    by (auto simp: find_None_iff)
  with a show "pickVideoApiKey rt envKey data = Inl (new_Error NO_KEY_MSG)"
    by (auto simp: pickVideoApiKey_def blank_def split: option.splits)
next
  fix e
  assume "pickVideoApiKey rt (KIE_API_KEY penv) data = Inl e \<and>
              targets numbers (videoTasks data) \<noteq> []"
  then show "generateVideos rt penv numbers data =
              \<lparr> outcome = Inl (Plain e), concurrency = None, pipelines = [] \<rparr>"
    by (simp add: generateVideos_def readAppData_def)
next
  fix e
  assume "pickVideoApiKey rt (KIE_API_KEY penv) data = Inl e"
  then show "pipelines (generateVideos rt penv numbers data) = []"
    by (simp add: generateVideos_def readAppData_def Let_def)
next
  fix item :: KeyItem
  show "is_kie_item rt item \<longleftrightarrow>
            (\<exists>p. platform item = Some p \<and>
                 toLowerCase rt p \<in> {js ''kie.ai'', js ''kie'', js ''kei'', js ''kieai''})"
    by (cases "platform item") (auto simp: is_kie_item_def KIE_PLATFORMS_def js_def)
qed

theorem pickVideoApiKey_priority_witness:
  "pickVideoApiKey example_runtime (Some (js '' abc '')) example_store
     = Inr (js ''abc'', js ''environment'')
   \<and> pickVideoApiKey example_runtime (Some (js '' ''))
       (example_store\<lparr>videoSettings := \<lparr> vs_apiKey = Some (js ''vk ''), savePath = [] \<rparr>\<rparr>)
     = Inr (js ''vk'', js ''videoSettings'')
   \<and> pickVideoApiKey example_runtime None example_store = Inr (js ''k2'', js ''video'')
   \<and> generateVideos example_runtime example_process_env None (example_store\<lparr>keyLibrary := []\<rparr>)
     = \<lparr> outcome = Inl (Plain (new_Error NO_KEY_MSG)), concurrency = None, pipelines = [] \<rparr>"
proof -
  let ?vs = "example_store\<lparr>videoSettings := \<lparr> vs_apiKey = Some (js ''vk ''), savePath = [] \<rparr>\<rparr>"
  let ?nk = "example_store\<lparr>keyLibrary := []\<rparr>"
  have trims: "trim (js '' abc '') = js ''abc''" "trim (js ''vk '') = js ''vk''"
    "trim (js '' '') = []" "trim (js ''  '') = []"
    by (simp_all add: trim_def js_def is_white_space_def)
  have ne: "js ''abc'' \<noteq> []" "js ''vk'' \<noteq> []"
    by (simp_all add: js_def)
  have blanks: "blank None" "blank (Some (js '' ''))" "blank (vs_apiKey (videoSettings example_store))"
    by (simp_all add: blank_def trims example_store_def)
  have lib: "1 < length (keyLibrary example_store)"
    "is_kie_item example_runtime (snd (keyLibrary example_store ! 1))"
    "\<forall>j<1. \<not> is_kie_item example_runtime (snd (keyLibrary example_store ! j))"
    by (simp_all add: example_store_def is_kie_item_def example_runtime_def KIE_PLATFORMS_def
          js_def)
  have elig: "targets None (videoTasks ?nk) \<noteq> []"
    by (simp add: targets_def example_store_def example_task_def STATUS_WAITING_def
          STATUS_FAILED_def STATUS_SUCCESS_def)
  note env = pickVideoApiKey_priority
    [of "Some (js '' abc '')" example_runtime example_store example_process_env None]
  note vs = pickVideoApiKey_priority
    [of "Some (js '' '')" example_runtime ?vs example_process_env None]
  note lb = pickVideoApiKey_priority
    [of None example_runtime example_store example_process_env None]
  note nk = pickVideoApiKey_priority
    [of None example_runtime ?nk example_process_env None]
  have 1: "pickVideoApiKey example_runtime (Some (js '' abc '')) example_store
     = Inr (js ''abc'', js ''environment'')"
    using env trims ne by simp
  have 2: "pickVideoApiKey example_runtime (Some (js '' '')) ?vs = Inr (js ''vk'', js ''videoSettings'')"
    using vs trims ne blanks by simp
  have 3: "pickVideoApiKey example_runtime None example_store = Inr (js ''k2'', js ''video'')"
  proof -
    from lb blanks lib have "pickVideoApiKey example_runtime None example_store =
      Inr (apiKey (snd (keyLibrary example_store ! 1)), name (snd (keyLibrary example_store ! 1)))"
      by blast
    then show ?thesis by (simp add: example_store_def)
  qed
  have "blank (vs_apiKey (videoSettings ?nk))"
    "\<forall>item \<in> set (keyLibrary ?nk). \<not> is_kie_item example_runtime (snd item)"
    using blanks by simp_all
  with nk blanks have "pickVideoApiKey example_runtime None ?nk = Inl (new_Error NO_KEY_MSG)"
    by blast
  then have "pickVideoApiKey example_runtime (KIE_API_KEY example_process_env) ?nk
      = Inl (new_Error NO_KEY_MSG)"
    by (simp add: example_process_env_def)
  with nk elig have 4: "generateVideos example_runtime example_process_env None ?nk
     = \<lparr> outcome = Inl (Plain (new_Error NO_KEY_MSG)), concurrency = None, pipelines = [] \<rparr>"
    by blast
  from 1 2 3 4 show ?thesis by blast
qed

text \<open>
  C5. The property: a response with a status in the 4xx range makes \<open>fetchJson\<close> fail
  on the first attempt, without a retry, with an error whose message embeds the status
  and the body. The code does otherwise: the error that the \<open>try\<close> block throws for
  such a response is caught by the \<open>catch\<close> clause of the same attempt, it is not an
  axios error, and so the clause waits and the loop goes on to the next attempt. With a
  first attempt answered 404 and a second answered 200 the call makes two requests, waits
  1000 ms between them and returns the body of the second; with every attempt answered
  404 it throws the error that embeds status and body only after three requests.
\<close>

theorem fetchJson_retries_client_error:
  "fetchJson example_runtime not_found_once GENERATE_URL (js ''POST'', js ''Bearer k'') 900000 3 =
     (Inr (JObj []),
      [Http GENERATE_URL (js ''POST'') (js ''Bearer k''), Sleep 1000,
       Http GENERATE_URL (js ''POST'') (js ''Bearer k'')])
   \<and> fetchJson example_runtime (\<lambda>attempt. Responds (HttpResponse 404 (JStr (js ''Not Found''))))
       GENERATE_URL (js ''POST'', js ''Bearer k'') 900000 3 =
     (Inl (Plain (new_Error (js ''HTTP 404: Not Found''))),
      [Http GENERATE_URL (js ''POST'') (js ''Bearer k''), Sleep 1000,
       Http GENERATE_URL (js ''POST'') (js ''Bearer k''), Sleep 2000,
       Http GENERATE_URL (js ''POST'') (js ''Bearer k'')])"
proof -
  have n: "show_nat 404 = js ''404''"
    by (simp add: show_nat.simps js_def)
  show ?thesis
    by (simp add: fetchJson_def fetchJson_loop.simps fetchJson_try_def fetchJson_catch_def
          axios_def not_found_once_def after_def http_error_message_def body_text_def n
          new_Error_def js_def)
qed

theorem fetchJson_retries_client_error_witness:
  "fst (fetchJson example_runtime not_found_once GENERATE_URL (js ''POST'', js ''Bearer k'')
          900000 3) = Inr (JObj [])"
  using fetchJson_retries_client_error by simp

text \<open>
  C6. When the submit call returns an answer whose \<open>data.taskId\<close> is missing (or, more
  generally, falsy), the pipeline writes the first update and then the failure update
  and nothing else: the task goes from the generating label directly to the failed
  label, with an error message made of the fixed prefix and the first 500 code units of
  the serialized answer; no request of the pipeline is a poll request, and the call
  itself returns normally. The record that the number of the task denotes (the first
  record of the store that carries it, as \<open>updateVideoTask\<close> finds it) ends with the
  failed label and that message.
\<close>

theorem processVideoTask_submit_without_taskId:
  fixes store :: "'c AppData_scheme"
  assumes "submit_answer rt env key = Inr generateResponse"
    and "\<not> truthy (taskId_of generateResponse)"
    and "find_task (number task) store \<noteq> None"
  shows "fst (processVideoTask rt env task key saveDir) = Inr ()
       \<and> writes (snd (processVideoTask rt env task key saveDir)) =
           [(number task,
             no_patch\<lparr>p_status := Some STATUS_GENERATING, p_errorMsg := Some [],
               p_progress := Some 5\<rparr>),
            (number task,
             no_patch\<lparr>p_status := Some STATUS_FAILED,
               p_errorMsg :=
                 Some (NO_TASK_ID_MSG @ take 500 (JSON_stringify rt generateResponse))\<rparr>)]
       \<and> filter is_poll_request (snd (processVideoTask rt env task key saveDir)) = []
       \<and> (\<exists>r. find_task (number task)
                 (persist clock k (snd (processVideoTask rt env task key saveDir)) store) = Some r
              \<and> status r = STATUS_FAILED
              \<and> errorMsg r = NO_TASK_ID_MSG @ take 500 (JSON_stringify rt generateResponse))"
proof -
  let ?msg = "NO_TASK_ID_MSG @ take 500 (JSON_stringify rt generateResponse)"
  let ?evs = "snd (fetchJson rt (submit_net env) GENERATE_URL (js ''POST'', js ''Bearer '' @ key)
                     900000 3)"
  let ?failed = "no_patch\<lparr>p_status := Some STATUS_FAILED, p_errorMsg := Some ?msg\<rparr>"
  have tr: "processVideoTask_try rt env task key saveDir = (Inl (Plain (new_Error ?msg)), ?evs)"
    using processVideoTask_try_without_taskId [OF assms(1,2)] .
  have msg: "errorMessage_of (Plain (new_Error ?msg)) = ?msg"
    by (rule errorMessage_of_new_Error) (rule NO_TASK_ID_MSG_nonempty)
  have trace: "snd (processVideoTask rt env task key saveDir) =
      (Write (number task)
         (no_patch\<lparr>p_status := Some STATUS_GENERATING, p_errorMsg := Some [],
            p_progress := Some 5\<rparr>) # ?evs) @ [Write (number task) ?failed]"
    using processVideoTask_failure [OF tr] msg by simp
  have w: "writes ?evs = []"
    by (rule fetchJson_snd_writes)
  have np: "\<And>ev. ev \<in> set ?evs \<Longrightarrow> \<not> is_poll_request ev"
  proof -
    fix ev assume "ev \<in> set ?evs"
    from fetchJson_snd_requests [OF this]
    have "ev = Http GENERATE_URL (js ''POST'') (js ''Bearer '' @ key) \<or> (\<exists>ms. ev = Sleep ms)"
      by simp
    then show "\<not> is_poll_request ev"
      using generate_is_not_poll by auto
  qed
  from processVideoTask_last_write [OF trace assms(3), of clock k]
  obtain r now where "find_task (number task)
       (persist clock k (snd (processVideoTask rt env task key saveDir)) store) =
       Some (Object_assign r ?failed now)"
    by blast
  moreover have "status (Object_assign r ?failed now) = STATUS_FAILED"
    "errorMsg (Object_assign r ?failed now) = ?msg"
    by (simp_all add: Object_assign_def assign_field_def no_patch_def)
  ultimately have store: "\<exists>r. find_task (number task)
                 (persist clock k (snd (processVideoTask rt env task key saveDir)) store) = Some r
              \<and> status r = STATUS_FAILED \<and> errorMsg r = ?msg"
    by blast
  have "filter is_poll_request ?evs = []"
    using np by (simp add: filter_empty_conv)
  then have polls: "filter is_poll_request (snd (processVideoTask rt env task key saveDir)) = []"
    unfolding trace by simp
  show ?thesis
    using processVideoTask_returns [of rt env task key saveDir] store polls
    by (simp add: trace writes_append w)
qed

theorem processVideoTask_submit_without_taskId_witness:
  "writes (snd (processVideoTask example_runtime (example_env submit_without_id (\<lambda>k. poll_done))
       (example_task (js ''2'') STATUS_WAITING) (js ''k2'') (js ''videos''))) =
     [(js ''2'',
       no_patch\<lparr>p_status := Some STATUS_GENERATING, p_errorMsg := Some [],
         p_progress := Some 5\<rparr>),
      (js ''2'',
       no_patch\<lparr>p_status := Some STATUS_FAILED, p_errorMsg := Some (NO_TASK_ID_MSG @ js ''{}'')\<rparr>)]
   \<and> filter is_poll_request
       (snd (processVideoTask example_runtime (example_env submit_without_id (\<lambda>k. poll_done))
          (example_task (js ''2'') STATUS_WAITING) (js ''k2'') (js ''videos''))) = []
   \<and> (\<exists>r. find_task (js ''2'')
         (persist (\<lambda>i. js ''2025-02-02'') 0
            (snd (processVideoTask example_runtime (example_env submit_without_id (\<lambda>k. poll_done))
               (example_task (js ''2'') STATUS_WAITING) (js ''k2'') (js ''videos'')))
            example_store) = Some r
        \<and> status r = STATUS_FAILED \<and> errorMsg r = NO_TASK_ID_MSG @ js ''{}'')"
proof -
  let ?env = "example_env submit_without_id (\<lambda>k. poll_done)"
  have a: "submit_answer example_runtime ?env (js ''k2'') = Inr submit_without_id"
    by (simp add: submit_answer_def fetchJson_def fetchJson_loop.simps fetchJson_try_def
          axios_def example_env_def)
  have b: "\<not> truthy (taskId_of submit_without_id)"
    by (simp add: taskId_of_def submit_without_id_def opt_prop_def js_def)
  have c: "find_task (number (example_task (js ''2'') STATUS_WAITING)) example_store \<noteq> None"
    by (simp add: find_task_def example_store_def example_task_def)
  have d: "take 500 (JSON_stringify example_runtime submit_without_id) = js ''{}''"
    by (simp add: example_runtime_def js_def)
  have e: "number (example_task (js ''2'') STATUS_WAITING) = js ''2''"
    by (simp add: example_task_def)
  from processVideoTask_submit_without_taskId [OF a b c, of "js ''videos''" "\<lambda>i. js ''2025-02-02''" 0]
  show ?thesis
    unfolding d e by blast
qed

text \<open>
  C2. When the submit call returns a job identifier and each of the 120 poll calls
  returns an answer that reports neither success nor a provider error, the pipeline
  waits 120 times for the poll interval of 5000 ms, its last effect is the failure
  update with the polling-timeout message, and the call itself returns normally: the
  error thrown after the loop is caught inside \<open>processVideoTask\<close>. The record that the
  number of the task denotes (the first record of the store that carries it) ends with
  the failed label and that message. A batch call that starts
  pipelines returns its success value: nothing that a pipeline throws leaves it.
\<close>

theorem processVideoTask_poll_timeout:
  fixes store :: "'c AppData_scheme"
  assumes "submit_answer rt env key = Inr generateResponse"
    and "taskId_of generateResponse = Some tid" and "truthy (Some tid)"
    and "\<forall>k. 1 \<le> k \<and> k \<le> maxPollTimes \<longrightarrow>
           (\<exists>pollData. poll_answer rt env key (pollUrl rt tid) k = Inr pollData
                       \<and> still_generating pollData)"
    and "find_task (number task) store \<noteq> None"
  shows "fst (processVideoTask rt env task key saveDir) = Inr ()
       \<and> maxPollTimes = 120 \<and> pollInterval = 5000
       \<and> length (filter (\<lambda>ev. ev = Sleep pollInterval)
             (snd (processVideoTask rt env task key saveDir))) = maxPollTimes
       \<and> last (snd (processVideoTask rt env task key saveDir)) =
           Write (number task)
             (no_patch\<lparr>p_status := Some STATUS_FAILED, p_errorMsg := Some POLL_TIMEOUT_MSG\<rparr>)
       \<and> (\<exists>r. find_task (number task)
                 (persist clock k0 (snd (processVideoTask rt env task key saveDir)) store) = Some r
              \<and> status r = STATUS_FAILED \<and> errorMsg r = POLL_TIMEOUT_MSG)
       \<and> (\<forall>ks. pickVideoApiKey rt (KIE_API_KEY penv) store = Inr ks
                 \<and> targets numbers (videoTasks store) \<noteq> [] \<longrightarrow>
              outcome (generateVideos rt penv numbers store) =
                Inr \<lparr> success = True, message = None \<rparr>)"
proof -
  let ?sub = "snd (fetchJson rt (submit_net env) GENERATE_URL (js ''POST'', js ''Bearer '' @ key)
                     900000 3)"
  let ?body = "\<lambda>k. snd (poll_body rt env task key saveDir (pollUrl rt tid) k)"
  let ?failed = "no_patch\<lparr>p_status := Some STATUS_FAILED, p_errorMsg := Some POLL_TIMEOUT_MSG\<rparr>"
  let ?evs = "?sub @ [Write (number task)
                 (no_patch\<lparr>p_status := Some STATUS_SUBMITTED, p_progress := Some 15\<rparr>)] @
              concat (map ?body [0 + 1 ..< maxPollTimes + 1])"
  have cont: "\<forall>k. 0 < k \<and> k \<le> maxPollTimes \<longrightarrow>
      fst (poll_body rt env task key saveDir (pollUrl rt tid) k) = Continue"
    using assms(4) poll_body_continue [of rt env key "pollUrl rt tid" _ _ task saveDir]
    by (metis One_nat_def Suc_leI)
  have loop: "poll_loop rt env task key saveDir (pollUrl rt tid) 0 =
      (Inl (Plain (new_Error POLL_TIMEOUT_MSG)), concat (map ?body [0 + 1 ..< maxPollTimes + 1]))"
    by (rule poll_loop_exhausts [OF cont])
  have tr: "processVideoTask_try rt env task key saveDir =
      (Inl (Plain (new_Error POLL_TIMEOUT_MSG)), ?evs)"
    unfolding processVideoTask_try_submitted [OF assms(1-3)] loop by (simp add: after_def)
  have msg: "errorMessage_of (Plain (new_Error POLL_TIMEOUT_MSG)) = POLL_TIMEOUT_MSG"
    by (rule errorMessage_of_new_Error) (rule POLL_TIMEOUT_MSG_nonempty)
  have trace: "snd (processVideoTask rt env task key saveDir) =
      (Write (number task)
         (no_patch\<lparr>p_status := Some STATUS_GENERATING, p_errorMsg := Some [],
            p_progress := Some 5\<rparr>) # ?evs) @ [Write (number task) ?failed]"
    using processVideoTask_failure [OF tr] msg by simp
  have sub: "filter (\<lambda>ev. ev = Sleep pollInterval) ?sub = []"
    by (rule fetchJson_no_poll_wait' [of rt "submit_net env" GENERATE_URL
          "(js ''POST'', js ''Bearer '' @ key)" 900000 "fst (fetchJson rt (submit_net env)
             GENERATE_URL (js ''POST'', js ''Bearer '' @ key) 900000 3)"]) simp
  have polls: "length (filter (\<lambda>ev. ev = Sleep pollInterval)
                 (concat (map ?body [0 + 1 ..< maxPollTimes + 1]))) =
               length [0 + 1 ..< maxPollTimes + 1]"
    by (rule filter_concat_map_singleton) (rule poll_body_waits_once)
  have waits: "length (filter (\<lambda>ev. ev = Sleep pollInterval)
             (snd (processVideoTask rt env task key saveDir))) = maxPollTimes"
    unfolding trace using sub polls by simp
  from processVideoTask_last_write [OF trace assms(5), of clock k0]
  obtain r now where "find_task (number task)
       (persist clock k0 (snd (processVideoTask rt env task key saveDir)) store) =
       Some (Object_assign r ?failed now)"
    by blast
  moreover have "status (Object_assign r ?failed now) = STATUS_FAILED"
    "errorMsg (Object_assign r ?failed now) = POLL_TIMEOUT_MSG"
    by (simp_all add: Object_assign_def assign_field_def no_patch_def)
  ultimately have store: "\<exists>r. find_task (number task)
                 (persist clock k0 (snd (processVideoTask rt env task key saveDir)) store) = Some r
              \<and> status r = STATUS_FAILED \<and> errorMsg r = POLL_TIMEOUT_MSG"
    by blast
  have lst: "last (snd (processVideoTask rt env task key saveDir)) = Write (number task) ?failed"
    unfolding trace by simp
  have batch: "\<forall>ks. pickVideoApiKey rt (KIE_API_KEY penv) store = Inr ks
                 \<and> targets numbers (videoTasks store) \<noteq> [] \<longrightarrow>
              outcome (generateVideos rt penv numbers store) =
                Inr \<lparr> success = True, message = None \<rparr>"
    using generateVideos_returns by blast
  show ?thesis
    using processVideoTask_returns [of rt env task key saveDir] store waits lst batch
    by (simp add: maxPollTimes_def pollInterval_def)
qed

theorem processVideoTask_poll_timeout_witness:
  "length (filter (\<lambda>ev. ev = Sleep 5000)
     (snd (processVideoTask example_runtime (example_env submit_ok (\<lambda>k. poll_pending))
        (example_task (js ''2'') STATUS_WAITING) (js ''k2'') (js ''videos'')))) = 120
   \<and> last (snd (processVideoTask example_runtime (example_env submit_ok (\<lambda>k. poll_pending))
        (example_task (js ''2'') STATUS_WAITING) (js ''k2'') (js ''videos''))) =
       Write (js ''2'')
         (no_patch\<lparr>p_status := Some STATUS_FAILED, p_errorMsg := Some POLL_TIMEOUT_MSG\<rparr>)
   \<and> (\<exists>r. find_task (js ''2'')
         (persist (\<lambda>i. js ''2025-02-02'') 0
            (snd (processVideoTask example_runtime (example_env submit_ok (\<lambda>k. poll_pending))
               (example_task (js ''2'') STATUS_WAITING) (js ''k2'') (js ''videos'')))
            example_store) = Some r
        \<and> status r = STATUS_FAILED \<and> errorMsg r = POLL_TIMEOUT_MSG)"
proof -
  let ?env = "example_env submit_ok (\<lambda>k. poll_pending)"
  have a: "submit_answer example_runtime ?env (js ''k2'') = Inr submit_ok"
    by (simp add: submit_answer_def fetchJson_def fetchJson_loop.simps fetchJson_try_def
          axios_def example_env_def)
  have b: "taskId_of submit_ok = Some (JStr (js ''t1''))" "truthy (Some (JStr (js ''t1'')))"
    by (simp_all add: taskId_of_def submit_ok_def opt_prop_def js_def)
  have c: "\<forall>k. 1 \<le> k \<and> k \<le> maxPollTimes \<longrightarrow>
           (\<exists>pollData. poll_answer example_runtime ?env (js ''k2'')
                          (pollUrl example_runtime (JStr (js ''t1''))) k = Inr pollData
                       \<and> still_generating pollData)"
    by (simp add: poll_answer_def fetchJson_def fetchJson_loop.simps fetchJson_try_def
          axios_def example_env_def still_generating_def payload_of_def poll_pending_def
          opt_prop_def nullish_def js_def)
  have d: "find_task (number (example_task (js ''2'') STATUS_WAITING)) example_store \<noteq> None"
    by (simp add: find_task_def example_store_def example_task_def)
  have e: "number (example_task (js ''2'') STATUS_WAITING) = js ''2''"
    by (simp add: example_task_def)
  from processVideoTask_poll_timeout [OF a b c d, of "js ''videos''" "\<lambda>i. js ''2025-02-02''" 0
      example_process_env None]
  show ?thesis
    unfolding e by (simp add: maxPollTimes_def pollInterval_def)
qed

text \<open>
  C4. When the submit call returns a job identifier, the poll calls before poll number
  \<open>m\<close> (within the budget) return answers that are still generating, poll number \<open>m\<close>
  returns an answer that reports success (code 200 and \<open>successFlag\<close> 1) with a list of
  at least one result link, and the download of the first link succeeds with a relative
  path and a file name, then the call returns normally and the record that the number
  of the task denotes (the first record of the store that carries it) ends with the
  success label, progress 100, that path as \<open>localPath\<close>, that file name as
  \<open>actualFilename\<close>, the first link as \<open>remoteUrl\<close>, and the empty string as \<open>errorMsg\<close>.
\<close>

theorem processVideoTask_success:
  fixes store :: "'c AppData_scheme"
  assumes "submit_answer rt env key = Inr generateResponse"
    and "taskId_of generateResponse = Some tid" and "truthy (Some tid)"
    and "1 \<le> m" and "m \<le> maxPollTimes"
    and "\<forall>k. 1 \<le> k \<and> k < m \<longrightarrow>
           (\<exists>d. poll_answer rt env key (pollUrl rt tid) k = Inr d \<and> still_generating d)"
    and "poll_answer rt env key (pollUrl rt tid) m = Inr pollData"
    and "reports_success pollData"
    and "resultUrls_of pollData = JArr (u # us)"
    and "fst (downloadVideo rt env (Some u) (number task) saveDir) = Inr (lp, fn)"
    and "find_task (number task) store \<noteq> None"
  shows "fst (processVideoTask rt env task key saveDir) = Inr ()
       \<and> (\<exists>r. find_task (number task)
                 (persist clock k0 (snd (processVideoTask rt env task key saveDir)) store) = Some r
              \<and> status r = STATUS_SUCCESS \<and> progress r = 100
              \<and> localPath r = Some lp \<and> actualFilename r = Some fn
              \<and> remoteUrl r = Some u \<and> errorMsg r = [])"
proof -
  let ?done = "no_patch\<lparr>p_status := Some STATUS_SUCCESS, p_progress := Some 100,
                 p_localPath := Some (Some lp), p_remoteUrl := Some (Some u),
                 p_actualFilename := Some (Some fn), p_errorMsg := Some []\<rparr>"
  have cont: "\<forall>k. 0 < k \<and> k < m \<longrightarrow>
      fst (poll_body rt env task key saveDir (pollUrl rt tid) k) = Continue"
    using assms(6) poll_body_continue [of rt env key "pollUrl rt tid" _ _ task saveDir]
    by (metis One_nat_def Suc_leI)
  obtain dl where dl: "downloadVideo rt env (Some u) (number task) saveDir = (Inr (lp, fn), dl)"
    using assms(10) by (cases "downloadVideo rt env (Some u) (number task) saveDir") auto
  from poll_body_success [OF assms(7,8,9) dl]
  obtain evs where body: "poll_body rt env task key saveDir (pollUrl rt tid) m =
      (Return, evs @ [Write (number task) ?done])"
    by blast
  have "0 < m" using assms(4) by simp
  from poll_loop_succeeds [OF this assms(5) cont body]
  obtain evs' where loop: "poll_loop rt env task key saveDir (pollUrl rt tid) 0 =
      (Inr (), evs' @ [Write (number task) ?done])"
    by blast
  have "\<exists>evs. processVideoTask_try rt env task key saveDir =
      (Inr (), evs @ [Write (number task) ?done])"
    unfolding processVideoTask_try_submitted [OF assms(1-3)] loop
    by (simp add: after_def)
  then obtain evs1 where tr: "processVideoTask_try rt env task key saveDir =
      (Inr (), evs1 @ [Write (number task) ?done])"
    by blast
  have trace: "snd (processVideoTask rt env task key saveDir) =
      (Write (number task)
         (no_patch\<lparr>p_status := Some STATUS_GENERATING, p_errorMsg := Some [],
            p_progress := Some 5\<rparr>) # evs1) @ [Write (number task) ?done]"
    using tr by (simp add: processVideoTask_def after_def)
  from processVideoTask_last_write [OF trace assms(11), of clock k0]
  obtain r now where "find_task (number task)
       (persist clock k0 (snd (processVideoTask rt env task key saveDir)) store) =
       Some (Object_assign r ?done now)"
    by blast
  moreover have "status (Object_assign r ?done now) = STATUS_SUCCESS"
    "progress (Object_assign r ?done now) = 100"
    "localPath (Object_assign r ?done now) = Some lp"
    "actualFilename (Object_assign r ?done now) = Some fn"
    "remoteUrl (Object_assign r ?done now) = Some u"
    "errorMsg (Object_assign r ?done now) = []"
    by (simp_all add: Object_assign_def assign_field_def no_patch_def)
  ultimately have "\<exists>r. find_task (number task)
                 (persist clock k0 (snd (processVideoTask rt env task key saveDir)) store) = Some r
              \<and> status r = STATUS_SUCCESS \<and> progress r = 100
              \<and> localPath r = Some lp \<and> actualFilename r = Some fn
              \<and> remoteUrl r = Some u \<and> errorMsg r = []"
    by blast
  then show ?thesis
    using processVideoTask_returns [of rt env task key saveDir] by blast
qed

theorem processVideoTask_success_witness:
  "\<exists>r. find_task (js ''2'')
         (persist (\<lambda>i. js ''2025-02-02'') 0
            (snd (processVideoTask example_runtime
               (example_env submit_ok (\<lambda>k. if k < 3 then poll_pending else poll_done))
               (example_task (js ''2'') STATUS_WAITING) (js ''k2'') (js ''videos'')))
            example_store) = Some r
        \<and> status r = STATUS_SUCCESS \<and> progress r = 100
        \<and> localPath r = Some (js ''videos/2_'' @ show_nat 1700000000000 @ js ''_v.mp4'')
        \<and> actualFilename r = Some (js ''2_'' @ show_nat 1700000000000 @ js ''_v.mp4'')
        \<and> remoteUrl r = Some (JStr (js ''https://cdn/v.mp4'')) \<and> errorMsg r = []"
proof -
  let ?env = "example_env submit_ok (\<lambda>k. if k < 3 then poll_pending else poll_done)"
  let ?task = "example_task (js ''2'') STATUS_WAITING"
  have a: "submit_answer example_runtime ?env (js ''k2'') = Inr submit_ok"
    by (simp add: submit_answer_def fetchJson_def fetchJson_loop.simps fetchJson_try_def
          axios_def example_env_def)
  have b: "taskId_of submit_ok = Some (JStr (js ''t1''))" "truthy (Some (JStr (js ''t1'')))"
    by (simp_all add: taskId_of_def submit_ok_def opt_prop_def js_def)
  have m: "(1::nat) \<le> 3" "3 \<le> maxPollTimes"
    by (simp_all add: maxPollTimes_def)
  have c: "\<forall>k. 1 \<le> k \<and> k < 3 \<longrightarrow>
           (\<exists>d. poll_answer example_runtime ?env (js ''k2'')
                   (pollUrl example_runtime (JStr (js ''t1''))) k = Inr d \<and> still_generating d)"
    by (simp add: poll_answer_def fetchJson_def fetchJson_loop.simps fetchJson_try_def
          axios_def example_env_def still_generating_def payload_of_def poll_pending_def
          opt_prop_def nullish_def js_def)
  have d: "poll_answer example_runtime ?env (js ''k2'')
             (pollUrl example_runtime (JStr (js ''t1''))) 3 = Inr poll_done"
    by (simp add: poll_answer_def fetchJson_def fetchJson_loop.simps fetchJson_try_def
          axios_def example_env_def)
  have e: "reports_success poll_done"
    "resultUrls_of poll_done = JArr (JStr (js ''https://cdn/v.mp4'') # [])"
    by (simp_all add: reports_success_def resultUrls_of_def payload_of_def poll_done_def
          opt_prop_def nullish_def js_def)
  have f: "fst (downloadVideo example_runtime ?env (Some (JStr (js ''https://cdn/v.mp4'')))
                  (number ?task) (js ''videos'')) =
           Inr (js ''videos/2_'' @ show_nat 1700000000000 @ js ''_v.mp4'',
                js ''2_'' @ show_nat 1700000000000 @ js ''_v.mp4'')"
    by (simp add: downloadVideo_def example_runtime_def example_env_def example_task_def
          endsWith_def response_ok_def js_def Let_def)
  have g: "find_task (number ?task) example_store \<noteq> None"
    by (simp add: find_task_def example_store_def example_task_def)
  have h: "number ?task = js ''2''"
    by (simp add: example_task_def)
  from processVideoTask_success [OF a b m c d e f g, of "\<lambda>i. js ''2025-02-02''" 0]
  show ?thesis
    unfolding h by blast
qed

text \<open>
  C7. Within one run of \<open>processVideoTask\<close> the progress values written by its updates
  are non-decreasing and lie between 0 and 100. They are 5 alone, or 5, then 15, then
  \<open>min(90, 15 + 2 * pollCount)\<close> for increasing poll counts within the budget, then
  nothing more, or 95, or 95 and 100. An update that sets the failed label carries no
  progress value, and an update without a progress value leaves the progress of every
  record as it was.
\<close>

theorem processVideoTask_progress_monotone:
  fixes store :: "'c AppData_scheme"
  shows "sorted (written_progress (snd (processVideoTask rt env task key saveDir)))
       \<and> (\<forall>v \<in> set (written_progress (snd (processVideoTask rt env task key saveDir))).
            0 \<le> v \<and> v \<le> 100)
       \<and> (\<exists>ks tail.
            (written_progress (snd (processVideoTask rt env task key saveDir)) = [5]
             \<or> written_progress (snd (processVideoTask rt env task key saveDir)) =
                 5 # 15 # map (\<lambda>k. min 90 (15 + int k * 2)) ks @ tail)
            \<and> sorted_wrt (<) ks \<and> (\<forall>k \<in> set ks. 1 \<le> k \<and> k \<le> maxPollTimes)
            \<and> tail \<in> {[], [95], [95, 100]})
       \<and> (\<forall>w \<in> set (writes (snd (processVideoTask rt env task key saveDir))).
            p_status (snd w) = Some STATUS_FAILED \<longrightarrow> p_progress (snd w) = None)
       \<and> (\<forall>patch. p_progress patch = None \<longrightarrow>
            map progress (videoTasks (updateVideoTask now n patch store)) =
            map progress (videoTasks store))"
proof -
  let ?T = "snd (processVideoTask rt env task key saveDir)"
  let ?blk = "snd (processVideoTask_try rt env task key saveDir)"
  have failed: "\<forall>w \<in> set (writes ?T). p_status (snd w) = Some STATUS_FAILED \<longrightarrow>
      p_progress (snd w) = None"
    using processVideoTask_writes [of _ rt env task key saveDir] by (auto simp: ok_write_def)
  have keep: "\<forall>patch. p_progress patch = None \<longrightarrow>
            map progress (videoTasks (updateVideoTask now n patch store)) =
            map progress (videoTasks store)"
    using updateVideoTask_keeps_progress by blast
  have "sorted (written_progress ?T) \<and> (\<forall>v \<in> set (written_progress ?T). 0 \<le> v \<and> v \<le> 100)
       \<and> (\<exists>ks tail.
            (written_progress ?T = [5]
             \<or> written_progress ?T = 5 # 15 # map (\<lambda>k. min 90 (15 + int k * 2)) ks @ tail)
            \<and> sorted_wrt (<) ks \<and> (\<forall>k \<in> set ks. 1 \<le> k \<and> k \<le> maxPollTimes)
            \<and> tail \<in> {[], [95], [95, 100]})"
  proof -
    from processVideoTask_try_progress [of rt env task key saveDir]
    consider "written_progress ?blk = []"
      | url where "written_progress ?blk =
          15 # written_progress (snd (poll_loop rt env task key saveDir url 0))"
      by blast
    then show ?thesis
    proof cases
      case 1
      then have "written_progress ?T = [5]"
        by (simp add: processVideoTask_progress_eq)
      then show ?thesis by (auto intro!: exI [of _ "[]"])
    next
      case 2
      let ?L = "written_progress (snd (poll_loop rt env task key saveDir url 0))"
      have T: "written_progress ?T = 5 # 15 # ?L"
        using 2 by (simp add: processVideoTask_progress_eq)
      from poll_loop_progress [of rt env task key saveDir url 0]
      have L: "sorted ?L" "\<forall>v \<in> set ?L. 17 \<le> v \<and> v \<le> 100"
        by auto
      from poll_loop_progress_shape [of rt env task key saveDir url 0]
      obtain ks tail where sh: "?L = map (\<lambda>k. min 90 (15 + int k * 2)) ks @ tail"
        "sorted_wrt (<) ks" "\<forall>k \<in> set ks. 0 < k \<and> k \<le> maxPollTimes"
        "tail \<in> {[], [95], [95, 100]}"
        by blast
      have a: "sorted (written_progress ?T)"
        unfolding T using L by fastforce
      have b: "\<forall>v \<in> set (written_progress ?T). 0 \<le> v \<and> v \<le> 100"
        unfolding T using L by fastforce
      have c: "written_progress ?T = 5 # 15 # map (\<lambda>k. min 90 (15 + int k * 2)) ks @ tail"
        unfolding T sh(1) ..
      have d: "\<forall>k \<in> set ks. 1 \<le> k \<and> k \<le> maxPollTimes"
        using sh(3) by auto
      from a b c d sh(2,4) show ?thesis by blast
    qed
  qed
  with failed keep show ?thesis by blast
qed

theorem processVideoTask_progress_monotone_witness:
  "written_progress
     (snd (processVideoTask example_runtime
        (example_env submit_ok (\<lambda>k. if k < 3 then poll_pending else poll_done))
        (example_task (js ''2'') STATUS_WAITING) (js ''k2'') (js ''videos''))) =
     [5, 15, 17, 19, 95, 100]
   \<and> sorted (written_progress
       (snd (processVideoTask example_runtime
          (example_env submit_ok (\<lambda>k. if k < 3 then poll_pending else poll_done))
          (example_task (js ''2'') STATUS_WAITING) (js ''k2'') (js ''videos''))))
   \<and> 0 \<le> last (written_progress
       (snd (processVideoTask example_runtime
          (example_env submit_ok (\<lambda>k. if k < 3 then poll_pending else poll_done))
          (example_task (js ''2'') STATUS_WAITING) (js ''k2'') (js ''videos''))))
   \<and> last (written_progress
       (snd (processVideoTask example_runtime
          (example_env submit_ok (\<lambda>k. if k < 3 then poll_pending else poll_done))
          (example_task (js ''2'') STATUS_WAITING) (js ''k2'') (js ''videos'')))) \<le> 100
   \<and> p_progress (snd (last (writes
       (snd (processVideoTask example_runtime (example_env submit_without_id (\<lambda>k. poll_done))
          (example_task (js ''2'') STATUS_WAITING) (js ''k2'') (js ''videos'')))))) = None"
proof -
  let ?T = "snd (processVideoTask example_runtime
        (example_env submit_ok (\<lambda>k. if k < 3 then poll_pending else poll_done))
        (example_task (js ''2'') STATUS_WAITING) (js ''k2'') (js ''videos''))"
  let ?F = "snd (processVideoTask example_runtime (example_env submit_without_id (\<lambda>k. poll_done))
          (example_task (js ''2'') STATUS_WAITING) (js ''k2'') (js ''videos''))"
  note ok = processVideoTask_progress_monotone
    [of example_runtime "example_env submit_ok (\<lambda>k. if k < 3 then poll_pending else poll_done)"
        "example_task (js ''2'') STATUS_WAITING" "js ''k2''" "js ''videos''"
        "js ''2025-02-02''" "js ''2''" example_store]
  note bad = processVideoTask_progress_monotone
    [of example_runtime "example_env submit_without_id (\<lambda>k. poll_done)"
        "example_task (js ''2'') STATUS_WAITING" "js ''k2''" "js ''videos''"
        "js ''2025-02-02''" "js ''2''" example_store]
  have run: "written_progress ?T = [5, 15, 17, 19, 95, 100]"
    by (simp add: processVideoTask_def processVideoTask_try_def poll_loop.simps poll_body_def
        fetchJson_def fetchJson_loop.simps fetchJson_try_def axios_def example_env_def
        after_def Let_def submit_ok_def poll_pending_def poll_done_def opt_prop_def nullish_def
        downloadVideo_def example_runtime_def example_task_def endsWith_def response_ok_def
        no_patch_def maxPollTimes_def js_def)
  then have mem: "last (written_progress ?T) \<in> set (written_progress ?T)"
    by simp
  have fail: "writes ?F =
     [(js ''2'',
       no_patch\<lparr>p_status := Some STATUS_GENERATING, p_errorMsg := Some [],
         p_progress := Some 5\<rparr>),
      (js ''2'',
       no_patch\<lparr>p_status := Some STATUS_FAILED, p_errorMsg := Some (NO_TASK_ID_MSG @ js ''{}'')\<rparr>)]"
    by (simp add: processVideoTask_def processVideoTask_try_def
        fetchJson_def fetchJson_loop.simps fetchJson_try_def axios_def example_env_def
        after_def Let_def submit_without_id_def opt_prop_def
        example_runtime_def example_task_def js_def errorMessage_of_new_Error
        NO_TASK_ID_MSG_nonempty)
  then have lastw: "last (writes ?F) \<in> set (writes ?F)"
    "p_status (snd (last (writes ?F))) = Some STATUS_FAILED"
    by (simp_all add: no_patch_def)
  from ok have "sorted (written_progress ?T)"
    and "\<forall>v \<in> set (written_progress ?T). 0 \<le> v \<and> v \<le> 100"
    by blast+
  moreover from bad have "\<forall>w \<in> set (writes ?F).
      p_status (snd w) = Some STATUS_FAILED \<longrightarrow> p_progress (snd w) = None"
    by blast
  ultimately show ?thesis
    using run mem lastw by blast
qed

end
